theory Spec2Isabelle
  imports Main "HOL-Library.Sublist"
begin

section \<open>The pybind11 recipe (recipes/pybind11/conanfile.py)\<close>

text \<open>
  The recipe is a class \<^verbatim>\<open>PyBind11Conan\<close> with six methods: \<^verbatim>\<open>source\<close>,
  \<^verbatim>\<open>_configure_cmake\<close>, \<^verbatim>\<open>build\<close>, \<^verbatim>\<open>package\<close>, \<^verbatim>\<open>package_id\<close> and
  \<^verbatim>\<open>package_info\<close>. Each method is embedded as a function on an explicit state. What the
  methods call outside the repository is of three kinds:
  \<^item> Python's \<^verbatim>\<open>os.path.join\<close>, \<^verbatim>\<open>os.rename\<close> and \<^verbatim>\<open>os.unlink\<close>, modelled here with
    their POSIX behaviour on a file system that maps path strings to nodes;
  \<^item> the external tools (the download of \<^verbatim>\<open>tools.get\<close>, the \<^verbatim>\<open>CMake\<close> helper's
    constructor, configure, build and install steps, and the recipe's \<^verbatim>\<open>self.copy\<close>),
    which are parameters: a record of functions, each of which may fail;
  \<^item> Conan's own objects \<^verbatim>\<open>self.cpp_info\<close> and \<^verbatim>\<open>self.info\<close>, records with the
    fields the recipe touches.
  Every call that leaves the recipe is also appended to a list of events, so that the
  order of the calls can be stated.
\<close>

subsection \<open>Path strings\<close>

text \<open>
  \<^verbatim>\<open>os.path.join(a, *p)\<close> of \<^verbatim>\<open>posixpath\<close>: each further component replaces the path
  when it starts with the separator, is appended as it is when the path is empty or ends
  with the separator, and is appended after a separator otherwise.
\<close>

definition join_step :: "string \<Rightarrow> string \<Rightarrow> string" where
  "join_step path b =
     (if b \<noteq> [] \<and> hd b = CHR ''/'' then b
      else if path = [] \<or> last path = CHR ''/'' then path @ b
      else path @ ''/'' @ b)"

definition os_path_join :: "string \<Rightarrow> string list \<Rightarrow> string" where
  "os_path_join a p = foldl join_step a p"

subsection \<open>The file system and Python's \<^verbatim>\<open>os\<close> calls\<close>

datatype node = File string | Dir

text \<open>
  A file system is an association list from path strings, as the program passes them to
  the operating system, to nodes; the first entry of a path is the one that counts. A
  relative path is an entry of the working directory of the step that uses it.
\<close>

type_synonym filesystem = "(string \<times> node) list"

datatype error =
    FileNotFoundError string
  | IsADirectoryError string
  | NotADirectoryError string
  | OSError string
  | ConanException string

definition is_under :: "string \<Rightarrow> string \<Rightarrow> bool" where
  "is_under d p = prefix (d @ ''/'') p"

definition has_children :: "string \<Rightarrow> filesystem \<Rightarrow> bool" where
  "has_children d fs = list_ex (\<lambda>(p, n). is_under d p) fs"

definition rebase :: "string \<Rightarrow> string \<Rightarrow> string \<Rightarrow> string" where
  "rebase src dst p =
     (if p = src then dst
      else if is_under src p then dst @ drop (length src) p
      else p)"

definition move :: "string \<Rightarrow> string \<Rightarrow> filesystem \<Rightarrow> filesystem" where
  "move src dst fs =
     map (\<lambda>(p, n). (rebase src dst p, n)) (filter (\<lambda>(p, n). p \<noteq> dst) fs)"

text \<open>
  \<^verbatim>\<open>os.rename(src, dst)\<close> on POSIX: \<^verbatim>\<open>FileNotFoundError\<close> when \<^verbatim>\<open>src\<close> does not exist;
  renaming a path to itself does nothing; a path cannot be renamed to a path under itself;
  an existing \<^verbatim>\<open>dst\<close> is replaced when both are
  files or when both are directories and \<^verbatim>\<open>dst\<close> is empty, and is an error otherwise. A
  directory moves with everything under it. Permissions and the existence of the parent
  of \<^verbatim>\<open>dst\<close> are not modelled.
\<close>

definition os_rename :: "string \<Rightarrow> string \<Rightarrow> filesystem \<Rightarrow> error + filesystem" where
  "os_rename src dst fs =
     (case map_of fs src of
        None \<Rightarrow> Inl (FileNotFoundError src)
      | Some n \<Rightarrow>
          if src = dst then Inr fs
          else if is_under src dst then
            Inl (case n of Dir \<Rightarrow> OSError dst | File _ \<Rightarrow> NotADirectoryError dst)
          else (case map_of fs dst of
                  None \<Rightarrow> Inr (move src dst fs)
                | Some m \<Rightarrow>
                    (case (n, m) of
                       (File _, File _) \<Rightarrow> Inr (move src dst fs)
                     | (File _, Dir) \<Rightarrow> Inl (IsADirectoryError dst)
                     | (Dir, File _) \<Rightarrow> Inl (NotADirectoryError dst)
                     | (Dir, Dir) \<Rightarrow>
                         if has_children dst fs then Inl (OSError dst)
                         else Inr (move src dst fs))))"

text \<open>
  \<^verbatim>\<open>os.unlink(path)\<close>: \<^verbatim>\<open>FileNotFoundError\<close> when the path does not exist,
  \<^verbatim>\<open>IsADirectoryError\<close> when it is a directory; a file is removed.
\<close>

definition os_unlink :: "string \<Rightarrow> filesystem \<Rightarrow> error + filesystem" where
  "os_unlink path fs =
     (case map_of fs path of
        None \<Rightarrow> Inl (FileNotFoundError path)
      | Some Dir \<Rightarrow> Inl (IsADirectoryError path)
      | Some (File _) \<Rightarrow> Inr (filter (\<lambda>(p, n). p \<noteq> path) fs))"

subsection \<open>The recipe object, the external tools and the state\<close>

datatype pyval = PyBool bool | PyStr string

record settings_values =
  os :: string
  arch :: string
  compiler :: string
  build_type :: string

text \<open>
  The attributes of \<^verbatim>\<open>self\<close> that the methods read and never write. The class fixes
  \<^verbatim>\<open>name\<close> and \<^verbatim>\<open>version\<close>; Conan sets the folders and the values of the declared
  settings \<^verbatim>\<open>"os", "arch", "compiler", "build_type"\<close>.
\<close>

record conanfile =
  name :: string
  version :: string
  settings :: settings_values
  source_folder :: string
  package_folder :: string

definition PyBind11Conan :: "settings_values \<Rightarrow> string \<Rightarrow> string \<Rightarrow> conanfile" where
  "PyBind11Conan st src pkg =
     \<lparr>name = ''pybind11'', version = ''2.10.1'', settings = st,
      source_folder = src, package_folder = pkg\<rparr>"

text \<open>The class constant \<^verbatim>\<open>_source_subfolder\<close>.\<close>

definition source_subfolder :: string where
  "source_subfolder = ''source_subfolder''"

text \<open>A \<^verbatim>\<open>CMake\<close> helper object: its \<^verbatim>\<open>definitions\<close> dictionary.\<close>

record cmake =
  definitions :: "string \<rightharpoonup> pyval"

text \<open>
  An archive as \<^verbatim>\<open>tools.get\<close> unpacks it: one top-level directory and the members
  under it, by their paths inside that directory.
\<close>

record archive =
  top_dir :: string
  members :: "(string \<times> node) list"

text \<open>
  The external tools, as parameters. \<^verbatim>\<open>download\<close> is the network part of
  \<^verbatim>\<open>tools.get(url)\<close>; \<^verbatim>\<open>new_cmake\<close> is the constructor \<^verbatim>\<open>CMake(self)\<close>, which fills
  the definitions from the settings; \<^verbatim>\<open>run_configure\<close>, \<^verbatim>\<open>run_build\<close> and
  \<^verbatim>\<open>run_install\<close> are the helper's steps and \<^verbatim>\<open>run_copy\<close> is \<^verbatim>\<open>self.copy\<close>: each
  works on the file system, and may raise after changing it. \<^verbatim>\<open>sys_executable\<close> is the
  path of the interpreter that runs the recipe.
\<close>

record environment =
  download :: "string \<Rightarrow> error + archive"
  new_cmake :: "conanfile \<Rightarrow> error + cmake"
  run_configure ::
    "cmake \<Rightarrow> string \<Rightarrow> (string \<times> pyval) list \<Rightarrow> filesystem \<Rightarrow> error option \<times> filesystem"
  run_build :: "cmake \<Rightarrow> filesystem \<Rightarrow> error option \<times> filesystem"
  run_install :: "cmake \<Rightarrow> filesystem \<Rightarrow> error option \<times> filesystem"
  run_copy ::
    "conanfile \<Rightarrow> string \<Rightarrow> string \<Rightarrow> string \<Rightarrow> filesystem \<Rightarrow> error option \<times> filesystem"
  sys_executable :: string

text \<open>The calls that leave the recipe, in the order they are made.\<close>

datatype event =
    ToolsGet string
  | OsRename string string
  | OsUnlink string
  | CMakeNew nat
  | CMakeSetDef nat string pyval
  | CMakeConfigure nat string "(string \<times> pyval) list"
  | CMakeBuild nat
  | CMakeInstall nat
  | ConanCopy string string string

text \<open>
  The state of one run: the attribute \<^verbatim>\<open>self._cmake\<close> (\<^verbatim>\<open>None\<close>, or a reference to a
  \<^verbatim>\<open>CMake\<close> object), the store of the \<^verbatim>\<open>CMake\<close> objects made so far (a reference is an
  index into it, so two references are the same object when they are equal), the file
  system, and the events so far.
\<close>

record state =
  self_cmake :: "nat option"
  objects :: "cmake list"
  files :: filesystem
  events :: "event list"

definition emit :: "event \<Rightarrow> state \<Rightarrow> state" where
  "emit e s = s\<lparr>events := events s @ [e]\<rparr>"

text \<open>A tool working on the files of the state: on an error the files are as it left them.\<close>

definition run_tool ::
  "(filesystem \<Rightarrow> error option \<times> filesystem) \<Rightarrow> state \<Rightarrow> error option \<times> state" where
  "run_tool tool s = (case tool (files s) of (r, fs) \<Rightarrow> (r, s\<lparr>files := fs\<rparr>))"

definition run_os ::
  "(filesystem \<Rightarrow> error + filesystem) \<Rightarrow> state \<Rightarrow> error option \<times> state" where
  "run_os call s =
     (case call (files s) of Inl e \<Rightarrow> (Some e, s) | Inr fs \<Rightarrow> (None, s\<lparr>files := fs\<rparr>))"

definition unpack :: "archive \<Rightarrow> filesystem \<Rightarrow> filesystem" where
  "unpack ar fs =
     (top_dir ar, Dir) # map (\<lambda>(p, n). (top_dir ar @ ''/'' @ p, n)) (members ar) @ fs"

text \<open>\<^verbatim>\<open>tools.get(url)\<close>: download the archive and unpack it into the working directory.\<close>

definition tools_get :: "environment \<Rightarrow> string \<Rightarrow> state \<Rightarrow> error option \<times> state" where
  "tools_get env url s =
     (let s1 = emit (ToolsGet url) s in
      case download env url of
        Inl e \<Rightarrow> (Some e, s1)
      | Inr ar \<Rightarrow> (None, s1\<lparr>files := unpack ar (files s1)\<rparr>))"

definition rename_call :: "string \<Rightarrow> string \<Rightarrow> state \<Rightarrow> error option \<times> state" where
  "rename_call src dst s = run_os (os_rename src dst) (emit (OsRename src dst) s)"

definition unlink_call :: "string \<Rightarrow> state \<Rightarrow> error option \<times> state" where
  "unlink_call path s = run_os (os_unlink path) (emit (OsUnlink path) s)"

text \<open>\<^verbatim>\<open>self._cmake.definitions[key] = v\<close> on the object that \<^verbatim>\<open>h\<close> refers to.\<close>

definition set_definition :: "nat \<Rightarrow> string \<Rightarrow> pyval \<Rightarrow> state \<Rightarrow> state" where
  "set_definition h key v s =
     emit (CMakeSetDef h key v)
       (s\<lparr>objects := (objects s)
            [h := (objects s ! h)\<lparr>definitions := (definitions (objects s ! h))(key \<mapsto> v)\<rparr>]\<rparr>)"

definition cmake_configure ::
  "environment \<Rightarrow> nat \<Rightarrow> string \<Rightarrow> (string \<times> pyval) list \<Rightarrow> state \<Rightarrow> error option \<times> state" where
  "cmake_configure env h source_dir defs s =
     run_tool (run_configure env (objects s ! h) source_dir defs)
       (emit (CMakeConfigure h source_dir defs) s)"

definition cmake_build :: "environment \<Rightarrow> nat \<Rightarrow> state \<Rightarrow> error option \<times> state" where
  "cmake_build env h s = run_tool (run_build env (objects s ! h)) (emit (CMakeBuild h) s)"

definition cmake_install :: "environment \<Rightarrow> nat \<Rightarrow> state \<Rightarrow> error option \<times> state" where
  "cmake_install env h s = run_tool (run_install env (objects s ! h)) (emit (CMakeInstall h) s)"

definition copy_call ::
  "environment \<Rightarrow> conanfile \<Rightarrow> string \<Rightarrow> string \<Rightarrow> string \<Rightarrow> state \<Rightarrow> error option \<times> state" where
  "copy_call env self pattern src dst s =
     run_tool (run_copy env self pattern src dst) (emit (ConanCopy pattern src dst) s)"

subsection \<open>The methods of the recipe\<close>

text \<open>
  \<^verbatim>\<open>source\<close>: fetch the archive of the version, then rename the directory
  \<^verbatim>\<open>"{}-{}".format(self.name, self.version)\<close> to the source subfolder.
\<close>

definition source :: "environment \<Rightarrow> conanfile \<Rightarrow> state \<Rightarrow> error option \<times> state" where
  "source env self s =
     (case tools_get env
             (''https://github.com/pybind/pybind11/archive/refs/tags/v'' @ version self @ ''.tar.gz'')
             s of
        (Some e, s1) \<Rightarrow> (Some e, s1)
      | (None, s1) \<Rightarrow> rename_call (name self @ ''-'' @ version self) source_subfolder s1)"

text \<open>
  \<^verbatim>\<open>_configure_cmake\<close>: return \<^verbatim>\<open>self._cmake\<close> when it is set; otherwise construct the
  helper, store it in \<^verbatim>\<open>self._cmake\<close>, set three definitions, configure, and return it.
  The result is the reference, or the error that the constructor or the configure step
  raised.
\<close>

definition configure_cmake :: "environment \<Rightarrow> conanfile \<Rightarrow> state \<Rightarrow> (error + nat) \<times> state" where
  "configure_cmake env self s =
     (case self_cmake s of
        Some h \<Rightarrow> (Inr h, s)
      | None \<Rightarrow>
          (case new_cmake env self of
             Inl e \<Rightarrow> (Inl e, s)
           | Inr c \<Rightarrow>
              (let h = length (objects s);
                   s1 = emit (CMakeNew h) (s\<lparr>self_cmake := Some h, objects := objects s @ [c]\<rparr>);
                   s2 = set_definition h ''PYBIND11_INSTALL'' (PyBool True) s1;
                   s3 = set_definition h ''PYBIND11_TEST'' (PyBool False) s2;
                   s4 = set_definition h ''PYBIND11_CMAKECONFIG_INSTALL_DIR''
                          (PyStr ''lib/cmake/pybind11'') s3
               in case cmake_configure env h
                         (os_path_join (source_folder self) [source_subfolder])
                         [(''PYTHON_EXECUTABLE'', PyStr (sys_executable env))] s4 of
                    (Some e, s5) \<Rightarrow> (Inl e, s5)
                  | (None, s5) \<Rightarrow> (Inr h, s5))))"

definition build :: "environment \<Rightarrow> conanfile \<Rightarrow> state \<Rightarrow> error option \<times> state" where
  "build env self s =
     (case configure_cmake env self s of
        (Inl e, s1) \<Rightarrow> (Some e, s1)
      | (Inr h, s1) \<Rightarrow> cmake_build env h s1)"

definition lib_folder :: "conanfile \<Rightarrow> string" where
  "lib_folder self = os_path_join (package_folder self) [''lib'', ''cmake'', ''pybind11'']"

text \<open>The two statements of \<^verbatim>\<open>package\<close> after the install step.\<close>

definition fix_config_files :: "conanfile \<Rightarrow> state \<Rightarrow> error option \<times> state" where
  "fix_config_files self s =
     (case rename_call (os_path_join (lib_folder self) [''pybind11Config.cmake''])
             (os_path_join (lib_folder self) [''pybind11Install.cmake'']) s of
        (Some e, s1) \<Rightarrow> (Some e, s1)
      | (None, s1) \<Rightarrow>
          unlink_call (os_path_join (lib_folder self) [''pybind11ConfigVersion.cmake'']) s1)"

definition package :: "environment \<Rightarrow> conanfile \<Rightarrow> state \<Rightarrow> error option \<times> state" where
  "package env self s =
     (case copy_call env self ''LICENSE'' source_subfolder ''licenses'' s of
        (Some e, s1) \<Rightarrow> (Some e, s1)
      | (None, s1) \<Rightarrow>
          (case configure_cmake env self s1 of
             (Inl e, s2) \<Rightarrow> (Some e, s2)
           | (Inr h, s2) \<Rightarrow>
               (case cmake_install env h s2 of
                  (Some e, s3) \<Rightarrow> (Some e, s3)
                | (None, s3) \<Rightarrow> fix_config_files self s3)))"

subsection \<open>Package identity and exported metadata\<close>

text \<open>
  \<^verbatim>\<open>self.info\<close>: what Conan computes the package id from. Conan fills it from the
  values of the settings, the options and the requirements of the recipe before it calls
  \<^verbatim>\<open>package_id\<close>; this recipe declares no options and no requirements.
\<close>

record conan_info =
  info_settings :: "(string \<times> string) list"
  info_options :: "(string \<times> string) list"
  info_requires :: "string list"

definition info_of :: "conanfile \<Rightarrow> conan_info" where
  "info_of self =
     \<lparr>info_settings =
        [(''os'', os (settings self)), (''arch'', arch (settings self)),
         (''compiler'', compiler (settings self)), (''build_type'', build_type (settings self))],
      info_options = [], info_requires = []\<rparr>"

text \<open>
  Modelled from the spec: \<^verbatim>\<open>self.info.header_only()\<close> is Conan's, not the repository's.
  The spec says that the package identity ignores all compiler and settings variability,
  since the package is header-only: the call clears what the identity is computed from.
\<close>

definition header_only :: "conan_info \<Rightarrow> conan_info" where
  "header_only i = i\<lparr>info_settings := [], info_options := [], info_requires := []\<rparr>"

definition package_id :: "conan_info \<Rightarrow> conan_info" where
  "package_id i = header_only i"

text \<open>
  \<^verbatim>\<open>self.cpp_info\<close>, with the three fields the recipe touches, and the values Conan
  gives them before it calls \<^verbatim>\<open>package_info\<close>: the include directories start as the
  one entry \<^verbatim>\<open>include\<close>.
\<close>

record cpp_info =
  includedirs :: "string list"
  builddirs :: "string list"
  build_modules :: "string list"

definition default_cpp_info :: cpp_info where
  "default_cpp_info = \<lparr>includedirs = [''include''], builddirs = [[]], build_modules = []\<rparr>"

definition package_info :: "conanfile \<Rightarrow> cpp_info \<Rightarrow> cpp_info" where
  "package_info self ci =
     (let ci1 = ci\<lparr>includedirs :=
                  includedirs ci @ [os_path_join (package_folder self) [''include'', ''pybind11'']]\<rparr>;
          cmake_base_path = os_path_join ''lib'' [''cmake'', ''pybind11''];
          ci2 = ci1\<lparr>builddirs := [cmake_base_path]\<rparr>;
          get_path = (\<lambda>filename. os_path_join cmake_base_path [filename])
      in ci2\<lparr>build_modules :=
               [get_path ''FindPythonLibsNew.cmake'', get_path ''pybind11Install.cmake'']\<rparr>)"

subsection \<open>Concrete inputs\<close>

text \<open>A recipe object as Conan sets it up on a Linux host, used to evaluate the methods.\<close>

definition example_settings :: settings_values where
  "example_settings =
     \<lparr>os = ''Linux'', arch = ''x86_64'', compiler = ''gcc'', build_type = ''Release''\<rparr>"

definition example_recipe :: conanfile where
  "example_recipe = PyBind11Conan example_settings ''/src'' ''/pkg''"

text \<open>
  The external tools of a run that goes through: the download serves the archive of
  version 2.10.1 as GitHub packs it, the helper's steps succeed, and the install step
  writes the two generated config files into the package folder \<^verbatim>\<open>/pkg\<close>.
\<close>

definition example_archive :: archive where
  "example_archive =
     \<lparr>top_dir = ''pybind11-2.10.1'',
      members = [(''LICENSE'', File ''BSD''), (''CMakeLists.txt'', File ''project'')]\<rparr>"

definition example_env :: environment where
  "example_env =
     \<lparr>download = (\<lambda>url.
        if url = ''https://github.com/pybind/pybind11/archive/refs/tags/v2.10.1.tar.gz''
        then Inr example_archive else Inl (ConanException url)),
      new_cmake = (\<lambda>self.
        Inr \<lparr>definitions = [''CMAKE_BUILD_TYPE'' \<mapsto> PyStr (build_type (settings self))]\<rparr>),
      run_configure = (\<lambda>c d defs fs. (None, fs)),
      run_build = (\<lambda>c fs. (None, fs)),
      run_install = (\<lambda>c fs.
        (None,
         [(''/pkg/lib/cmake/pybind11/pybind11Config.cmake'', File ''config''),
          (''/pkg/lib/cmake/pybind11/pybind11ConfigVersion.cmake'', File ''version'')] @ fs)),
      run_copy = (\<lambda>self pattern src dst fs.
        (None, (os_path_join (package_folder self) [dst, pattern], File ''BSD'') # fs)),
      sys_executable = ''/usr/bin/python3''\<rparr>"

text \<open>The same tools, with an archive whose top-level directory has another name.\<close>

definition branch_archive_env :: environment where
  "branch_archive_env =
     example_env\<lparr>download := (\<lambda>url. Inr (example_archive\<lparr>top_dir := ''pybind11-master''\<rparr>))\<rparr>"

text \<open>The same tools, with an install step that writes one config file and then fails.\<close>

definition failing_install_env :: environment where
  "failing_install_env =
     example_env\<lparr>run_install := (\<lambda>c fs.
        (Some (ConanException ''install''),
         (''/pkg/lib/cmake/pybind11/pybind11Config.cmake'', File ''config'') # fs))\<rparr>"

definition initial_state :: state where
  "initial_state = \<lparr>self_cmake = None, objects = [], files = [], events = []\<rparr>"

subsection \<open>Reading the events\<close>

text \<open>The events that a step added to those of the state it started from.\<close>

definition new_events :: "state \<Rightarrow> state \<Rightarrow> event list" where
  "new_events s s' = drop (length (events s)) (events s')"

text \<open>
  \<open>handle_first cur evs\<close>: every build or install step in \<open>evs\<close> is on the helper that
  \<^verbatim>\<open>self._cmake\<close> refers to at that moment, where \<open>cur\<close> is \<^verbatim>\<open>self._cmake\<close> before
  \<open>evs\<close> and a construction sets it. \<open>memo_after cur evs\<close> is \<^verbatim>\<open>self._cmake\<close> after
  \<open>evs\<close>.
\<close>

fun handle_first :: "nat option \<Rightarrow> event list \<Rightarrow> bool" where
  "handle_first cur [] = True"
| "handle_first cur (CMakeNew h # es) = handle_first (Some h) es"
| "handle_first cur (CMakeBuild h # es) = (cur = Some h \<and> handle_first cur es)"
| "handle_first cur (CMakeInstall h # es) = (cur = Some h \<and> handle_first cur es)"
| "handle_first cur (e # es) = handle_first cur es"

fun memo_after :: "nat option \<Rightarrow> event list \<Rightarrow> nat option" where
  "memo_after cur [] = cur"
| "memo_after cur (CMakeNew h # es) = memo_after (Some h) es"
| "memo_after cur (e # es) = memo_after cur es"

text \<open>
  \<open>install_first seen evs\<close>: every rename and unlink in \<open>evs\<close> comes after an install
  step, where \<open>seen\<close> says whether one came before \<open>evs\<close>.
\<close>

fun install_first :: "bool \<Rightarrow> event list \<Rightarrow> bool" where
  "install_first seen [] = True"
| "install_first seen (CMakeInstall h # es) = install_first True es"
| "install_first seen (OsRename a b # es) = (seen \<and> install_first seen es)"
| "install_first seen (OsUnlink a # es) = (seen \<and> install_first seen es)"
| "install_first seen (e # es) = install_first seen es"

fun is_new :: "event \<Rightarrow> bool" where
  "is_new (CMakeNew h) = True"
| "is_new e = False"

fun is_set_def :: "event \<Rightarrow> bool" where
  "is_set_def (CMakeSetDef h k v) = True"
| "is_set_def e = False"

fun is_configure :: "event \<Rightarrow> bool" where
  "is_configure (CMakeConfigure h d defs) = True"
| "is_configure e = False"

fun is_fixup :: "event \<Rightarrow> bool" where
  "is_fixup (OsRename a b) = True"
| "is_fixup (OsUnlink a) = True"
| "is_fixup e = False"

text \<open>A helper object after the three assignments of \<^verbatim>\<open>_configure_cmake\<close>.\<close>

definition configured_object :: "cmake \<Rightarrow> cmake" where
  "configured_object c =
     c\<lparr>definitions := (definitions c)
          (''PYBIND11_INSTALL'' \<mapsto> PyBool True,
           ''PYBIND11_TEST'' \<mapsto> PyBool False,
           ''PYBIND11_CMAKECONFIG_INSTALL_DIR'' \<mapsto> PyStr ''lib/cmake/pybind11'')\<rparr>"

text \<open>What one call of the configuration method adds to the events.\<close>

definition configure_events :: "environment \<Rightarrow> conanfile \<Rightarrow> state \<Rightarrow> event list" where
  "configure_events env self s =
     (case self_cmake s of
        Some h \<Rightarrow> []
      | None \<Rightarrow>
          (case new_cmake env self of
             Inl e \<Rightarrow> []
           | Inr c \<Rightarrow>
               [CMakeNew (length (objects s)),
                CMakeSetDef (length (objects s)) ''PYBIND11_INSTALL'' (PyBool True),
                CMakeSetDef (length (objects s)) ''PYBIND11_TEST'' (PyBool False),
                CMakeSetDef (length (objects s)) ''PYBIND11_CMAKECONFIG_INSTALL_DIR''
                  (PyStr ''lib/cmake/pybind11''),
                CMakeConfigure (length (objects s))
                  (os_path_join (source_folder self) [''source_subfolder''])
                  [(''PYTHON_EXECUTABLE'', PyStr (sys_executable env))]]))"

text \<open>The state of the example run after the licence copy and the configuration.\<close>

definition after_configure :: state where
  "after_configure =
     \<lparr>self_cmake = Some 0,
      objects = [configured_object \<lparr>definitions = [''CMAKE_BUILD_TYPE'' \<mapsto> PyStr ''Release'']\<rparr>],
      files = [(''/pkg/licenses/LICENSE'', File ''BSD'')],
      events =
        [ConanCopy ''LICENSE'' ''source_subfolder'' ''licenses'',
         CMakeNew 0,
         CMakeSetDef 0 ''PYBIND11_INSTALL'' (PyBool True),
         CMakeSetDef 0 ''PYBIND11_TEST'' (PyBool False),
         CMakeSetDef 0 ''PYBIND11_CMAKECONFIG_INSTALL_DIR'' (PyStr ''lib/cmake/pybind11''),
         CMakeConfigure 0 ''/src/source_subfolder''
           [(''PYTHON_EXECUTABLE'', PyStr ''/usr/bin/python3'')]]\<rparr>"

subsection \<open>Lookups after a move\<close>

lemma map_of_rekey:
  "\<forall>e \<in> set xs. f (fst e) = k \<longleftrightarrow> fst e = k' \<Longrightarrow>
   map_of (map (\<lambda>(p, n). (f p, n)) xs) k = map_of xs k'"
  by (induction xs) auto

lemma map_of_rekey_None:
  "\<forall>e \<in> set xs. f (fst e) \<noteq> k \<Longrightarrow>
   map_of (map (\<lambda>(p, n). (f p, n)) xs) k = None"
  by (induction xs) auto

lemma map_of_filter_neq_same:
  "map_of (filter (\<lambda>(p, n). p \<noteq> k) fs) k = None"
  by (induction fs) auto

lemma map_of_filter_neq_other:
  "q \<noteq> k \<Longrightarrow> map_of (filter (\<lambda>(p, n). p \<noteq> k) fs) q = map_of fs q"
  by (induction fs) auto

lemma map_of_move_dst:
  assumes "src \<noteq> dst"
  shows "map_of (move src dst fs) dst = map_of fs src"
proof -
  have "map_of (move src dst fs) dst = map_of (filter (\<lambda>(p, n). p \<noteq> dst) fs) src"
    unfolding move_def
    by (rule map_of_rekey) (auto simp: rebase_def is_under_def prefix_def)
  with assms show ?thesis by (simp add: map_of_filter_neq_other)
qed

lemma map_of_move_src:
  assumes "\<not> prefix dst src"
  shows "map_of (move src dst fs) src = None"
  unfolding move_def
  using assms by (intro map_of_rekey_None) (auto simp: rebase_def is_under_def prefix_def)

lemma map_of_move_other:
  assumes "q \<noteq> src" "\<not> is_under src q" "\<not> prefix dst q"
  shows "map_of (move src dst fs) q = map_of fs q"
proof -
  have "q \<noteq> dst" using assms(3) by auto
  have "map_of (move src dst fs) q = map_of (filter (\<lambda>(p, n). p \<noteq> dst) fs) q"
    unfolding move_def
    using assms by (intro map_of_rekey) (auto simp: rebase_def is_under_def prefix_def)
  with \<open>q \<noteq> dst\<close> show ?thesis by (simp add: map_of_filter_neq_other)
qed

lemma map_of_move_under:
  assumes "\<not> is_under src dst" "\<not> has_children dst fs"
  shows "map_of (move src dst fs) (dst @ ''/'' @ r) = map_of fs (src @ ''/'' @ r)"
proof -
  have nc: "\<not> is_under dst p" if "(p, n) \<in> set fs" for p n
    using assms(2) that by (auto simp: has_children_def list_ex_iff)
  have "map_of (move src dst fs) (dst @ ''/'' @ r) =
        map_of (filter (\<lambda>(p, n). p \<noteq> dst) fs) (src @ ''/'' @ r)"
    unfolding move_def
  proof (rule map_of_rekey, rule ballI)
    fix e
    assume "e \<in> set (filter (\<lambda>(p, n). p \<noteq> dst) fs)"
    then have "\<not> is_under dst (fst e)" "fst e \<noteq> dst" using nc [of "fst e" "snd e"] by auto
    then show "rebase src dst (fst e) = dst @ ''/'' @ r \<longleftrightarrow> fst e = src @ ''/'' @ r"
      by (auto simp: rebase_def is_under_def prefix_def)
  qed
  moreover have "src @ ''/'' @ r \<noteq> dst"
    using assms(1) by (auto simp: is_under_def prefix_def)
  ultimately show ?thesis by (simp add: map_of_filter_neq_other)
qed

subsection \<open>Paths built by the recipe\<close>

lemma join_lib_cmake: "os_path_join ''lib'' [''cmake'', ''pybind11''] = ''lib/cmake/pybind11''"
  by (simp add: os_path_join_def join_step_def)

lemma join_include:
  "pf \<noteq> [] \<Longrightarrow> last pf \<noteq> CHR ''/'' \<Longrightarrow>
   os_path_join pf [''include'', ''pybind11''] = pf @ ''/include/pybind11''"
  by (simp add: os_path_join_def join_step_def)

lemma package_info_includedirs:
  "includedirs (package_info self ci) =
     includedirs ci @ [os_path_join (package_folder self) [''include'', ''pybind11'']]"
  by (simp add: package_info_def Let_def)

lemma package_info_builddirs:
  "builddirs (package_info self ci) = [''lib/cmake/pybind11'']"
  by (simp add: package_info_def Let_def os_path_join_def join_step_def)

lemma package_info_build_modules:
  "build_modules (package_info self ci) =
     [''lib/cmake/pybind11/FindPythonLibsNew.cmake'', ''lib/cmake/pybind11/pybind11Install.cmake'']"
  by (simp add: package_info_def Let_def os_path_join_def join_step_def)

lemma package_info_settings:
  "package_info (self\<lparr>settings := st\<rparr>) ci = package_info self ci"
  by (simp add: package_info_def)

subsection \<open>The steps, as equations on the state\<close>

lemma run_tool_eq:
  "run_tool tool s = (fst (tool (files s)), s\<lparr>files := snd (tool (files s))\<rparr>)"
  by (simp add: run_tool_def split: prod.splits)

lemma cmake_build_eq:
  "cmake_build env h s =
     (fst (run_build env (objects s ! h) (files s)),
      s\<lparr>files := snd (run_build env (objects s ! h) (files s)),
        events := events s @ [CMakeBuild h]\<rparr>)"
  by (simp add: cmake_build_def run_tool_eq emit_def)

lemma cmake_install_eq:
  "cmake_install env h s =
     (fst (run_install env (objects s ! h) (files s)),
      s\<lparr>files := snd (run_install env (objects s ! h) (files s)),
        events := events s @ [CMakeInstall h]\<rparr>)"
  by (simp add: cmake_install_def run_tool_eq emit_def)

lemma cmake_configure_eq:
  "cmake_configure env h d defs s =
     (fst (run_configure env (objects s ! h) d defs (files s)),
      s\<lparr>files := snd (run_configure env (objects s ! h) d defs (files s)),
        events := events s @ [CMakeConfigure h d defs]\<rparr>)"
  by (simp add: cmake_configure_def run_tool_eq emit_def)

lemma copy_call_eq:
  "copy_call env self pat src dst s =
     (fst (run_copy env self pat src dst (files s)),
      s\<lparr>files := snd (run_copy env self pat src dst (files s)),
        events := events s @ [ConanCopy pat src dst]\<rparr>)"
  by (simp add: copy_call_def run_tool_eq emit_def)

lemma configure_cmake_None:
  assumes "self_cmake s = None" "new_cmake env self = Inr c"
  shows "configure_cmake env self s =
    (let h = length (objects s);
         d = os_path_join (source_folder self) [''source_subfolder''];
         defs = [(''PYTHON_EXECUTABLE'', PyStr (sys_executable env))];
         r = run_configure env (configured_object c) d defs (files s)
     in (case fst r of Some e \<Rightarrow> Inl e | None \<Rightarrow> Inr h,
         s\<lparr>self_cmake := Some h,
           objects := objects s @ [configured_object c],
           files := snd r,
           events := events s @
             [CMakeNew h,
              CMakeSetDef h ''PYBIND11_INSTALL'' (PyBool True),
              CMakeSetDef h ''PYBIND11_TEST'' (PyBool False),
              CMakeSetDef h ''PYBIND11_CMAKECONFIG_INSTALL_DIR'' (PyStr ''lib/cmake/pybind11''),
              CMakeConfigure h d defs]\<rparr>))"
  using assms
  by (simp add: configure_cmake_def Let_def set_definition_def emit_def cmake_configure_eq
      configured_object_def source_subfolder_def split: option.splits)

lemma new_events_upd [simp]:
  "new_events s (s'\<lparr>events := events s @ xs\<rparr>) = xs"
  by (simp add: new_events_def)

lemma new_events_same [simp]: "new_events s s = []"
  by (simp add: new_events_def)

lemma run_os_eq:
  "run_os call s =
     (case call (files s) of Inl e \<Rightarrow> Some e | Inr fs \<Rightarrow> None,
      case call (files s) of Inl e \<Rightarrow> s | Inr fs \<Rightarrow> s\<lparr>files := fs\<rparr>)"
  by (simp add: run_os_def split: sum.splits)

lemma configure_cmake_Some:
  "self_cmake s = Some h \<Longrightarrow> configure_cmake env self s = (Inr h, s)"
  by (simp add: configure_cmake_def)

lemma configure_cmake_fail:
  "self_cmake s = None \<Longrightarrow> new_cmake env self = Inl e \<Longrightarrow> configure_cmake env self s = (Inl e, s)"
  by (simp add: configure_cmake_def)

lemma rename_call_eq:
  "rename_call src dst s =
     (case os_rename src dst (files s) of Inl e \<Rightarrow> Some e | Inr fs \<Rightarrow> None,
      case os_rename src dst (files s) of
        Inl e \<Rightarrow> s\<lparr>events := events s @ [OsRename src dst]\<rparr>
      | Inr fs \<Rightarrow> s\<lparr>files := fs, events := events s @ [OsRename src dst]\<rparr>)"
  by (simp add: rename_call_def run_os_def emit_def split: sum.splits)

lemma unlink_call_eq:
  "unlink_call path s =
     (case os_unlink path (files s) of Inl e \<Rightarrow> Some e | Inr fs \<Rightarrow> None,
      case os_unlink path (files s) of
        Inl e \<Rightarrow> s\<lparr>events := events s @ [OsUnlink path]\<rparr>
      | Inr fs \<Rightarrow> s\<lparr>files := fs, events := events s @ [OsUnlink path]\<rparr>)"
  by (simp add: unlink_call_def run_os_def emit_def split: sum.splits)

lemma fix_config_files_events:
  "\<exists>evs. events (snd (fix_config_files self s)) = events s @ evs \<and>
         list_all is_fixup evs \<and>
         self_cmake (snd (fix_config_files self s)) = self_cmake s"
  by (simp add: fix_config_files_def rename_call_eq unlink_call_eq split: sum.splits)

lemma handle_first_append:
  "handle_first cur (xs @ ys) \<longleftrightarrow> handle_first cur xs \<and> handle_first (memo_after cur xs) ys"
  by (induction cur xs rule: handle_first.induct) auto

lemma memo_after_append:
  "memo_after cur (xs @ ys) = memo_after (memo_after cur xs) ys"
  by (induction cur xs rule: memo_after.induct) auto

lemma handle_first_fixups: "list_all is_fixup evs \<Longrightarrow> handle_first cur evs"
  by (induction cur evs rule: handle_first.induct) auto

lemma memo_after_fixups: "list_all is_fixup evs \<Longrightarrow> memo_after cur evs = cur"
  by (induction cur evs rule: memo_after.induct) auto

lemma install_first_True: "install_first True evs"
  by (induction "True" evs rule: install_first.induct) auto

lemma install_first_no_fixup:
  "\<not> list_ex is_fixup xs \<Longrightarrow> install_first seen (xs @ ys) \<longleftrightarrow>
     install_first seen ys \<or> install_first True ys \<and> list_ex (\<lambda>e. \<exists>h. e = CMakeInstall h) xs"
  by (induction seen xs rule: install_first.induct) (auto simp: install_first_True)

lemma configure_cmake_events:
  "events (snd (configure_cmake env self s)) = events s @ configure_events env self s"
proof (cases "self_cmake s")
  case (Some h)
  then show ?thesis by (simp add: configure_cmake_Some configure_events_def)
next
  case None
  then show ?thesis
    by (cases "new_cmake env self")
       (simp_all add: configure_cmake_fail configure_cmake_None configure_events_def Let_def)
qed

lemma configure_cmake_memo:
  "self_cmake (snd (configure_cmake env self s)) =
     memo_after (self_cmake s) (configure_events env self s)"
proof (cases "self_cmake s")
  case (Some h)
  then show ?thesis by (simp add: configure_cmake_Some configure_events_def)
next
  case None
  then show ?thesis
    by (cases "new_cmake env self")
       (simp_all add: configure_cmake_fail configure_cmake_None configure_events_def Let_def)
qed

lemma configure_cmake_result:
  "fst (configure_cmake env self s) = Inr h \<Longrightarrow>
   self_cmake (snd (configure_cmake env self s)) = Some h"
proof (cases "self_cmake s")
  case (Some h')
  assume "fst (configure_cmake env self s) = Inr h"
  with Some show ?thesis by (simp add: configure_cmake_Some)
next
  case None
  assume r: "fst (configure_cmake env self s) = Inr h"
  show ?thesis
  proof (cases "new_cmake env self")
    case (Inl e)
    with None r show ?thesis by (simp add: configure_cmake_fail)
  next
    case (Inr c)
    with None r show ?thesis
      by (simp add: configure_cmake_None Let_def split: option.splits)
  qed
qed

lemma handle_first_configure_events:
  "handle_first cur (configure_events env self s)"
  by (simp add: configure_events_def split: option.splits sum.splits)

lemma no_fixup_configure_events:
  "\<not> list_ex is_fixup (configure_events env self s)"
  by (simp add: configure_events_def split: option.splits sum.splits)

lemma no_install_configure_events:
  "\<not> list_ex (\<lambda>e. \<exists>h. e = CMakeInstall h) (configure_events env self s)"
  by (simp add: configure_events_def split: option.splits sum.splits)

lemma build_events:
  "events (snd (build env self s)) =
     events s @ configure_events env self s @
       (case fst (configure_cmake env self s) of Inl e \<Rightarrow> [] | Inr h \<Rightarrow> [CMakeBuild h])"
proof (cases "configure_cmake env self s")
  case (Pair r s1)
  then have "events s1 = events s @ configure_events env self s"
    using configure_cmake_events [of env self s] by simp
  with Pair show ?thesis
    by (cases r) (simp_all add: build_def cmake_build_eq)
qed

lemma build_memo:
  "self_cmake (snd (build env self s)) = self_cmake (snd (configure_cmake env self s))"
  by (cases "configure_cmake env self s")
     (simp add: build_def cmake_build_eq split: sum.splits)

lemma new_events_append: "events s' = events s @ xs \<Longrightarrow> new_events s s' = xs"
  by (simp add: new_events_def)

lemma package_shape:
  "\<exists>pre post.
     events (snd (package env self s)) = events s @ pre @ post \<and>
     \<not> list_ex is_fixup pre \<and>
     \<not> list_ex (\<lambda>e. \<exists>h. e = CMakeInstall h) pre \<and>
     handle_first (self_cmake s) pre \<and>
     self_cmake (snd (package env self s)) = memo_after (self_cmake s) pre \<and>
     (post = [] \<or>
      (\<exists>h fx. post = CMakeInstall h # fx \<and> memo_after (self_cmake s) pre = Some h \<and>
         list_all is_fixup fx))"
proof -
  let ?copy = "ConanCopy ''LICENSE'' source_subfolder ''licenses''"
  obtain r1 s1 where c1: "copy_call env self ''LICENSE'' source_subfolder ''licenses'' s = (r1, s1)"
    by (cases "copy_call env self ''LICENSE'' source_subfolder ''licenses'' s")
  then have e1: "events s1 = events s @ [?copy]" and m1: "self_cmake s1 = self_cmake s"
    by (auto simp: copy_call_eq)
  show ?thesis
  proof (cases r1)
    case (Some e)
    with c1 have "package env self s = (Some e, s1)" by (simp add: package_def)
    with e1 m1 show ?thesis
      by (intro exI [of _ "[?copy]"] exI [of _ "[]"]) simp
  next
    case None
    let ?ce = "configure_events env self s1"
    obtain r2 s2 where c2: "configure_cmake env self s1 = (r2, s2)"
      by (cases "configure_cmake env self s1")
    then have e2: "events s2 = events s @ ?copy # ?ce"
      and m2: "self_cmake s2 = memo_after (self_cmake s) (?copy # ?ce)"
      using configure_cmake_events [of env self s1] configure_cmake_memo [of env self s1] e1 m1
      by auto
    have pre: "\<not> list_ex is_fixup (?copy # ?ce)"
      "\<not> list_ex (\<lambda>e. \<exists>h. e = CMakeInstall h) (?copy # ?ce)"
      "handle_first (self_cmake s) (?copy # ?ce)"
      using no_fixup_configure_events [of env self s1] no_install_configure_events [of env self s1]
        handle_first_configure_events [of "self_cmake s" env self s1]
      by auto
    show ?thesis
    proof (cases r2)
      case (Inl e)
      with None c1 c2 have "package env self s = (Some e, s2)" by (simp add: package_def)
      with e2 m2 pre show ?thesis
        by (intro exI [of _ "?copy # ?ce"] exI [of _ "[]"]) simp
    next
      case (Inr h)
      with c2 have mh: "self_cmake s2 = Some h"
        using configure_cmake_result [of env self s1 h] by simp
      obtain r3 s3 where c3: "cmake_install env h s2 = (r3, s3)"
        by (cases "cmake_install env h s2")
      then have e3: "events s3 = events s2 @ [CMakeInstall h]" and m3: "self_cmake s3 = self_cmake s2"
        by (auto simp: cmake_install_eq)
      obtain fx where fx: "events (snd (fix_config_files self s3)) = events s3 @ fx"
        "list_all is_fixup fx" "self_cmake (snd (fix_config_files self s3)) = self_cmake s3"
        using fix_config_files_events [of self s3] by blast
      have pk: "package env self s = (case r3 of Some e \<Rightarrow> (Some e, s3) | None \<Rightarrow> fix_config_files self s3)"
        using None Inr c1 c2 c3 by (simp add: package_def)
      show ?thesis
      proof (cases r3)
        case (Some e)
        with pk e2 e3 m2 m3 mh pre show ?thesis
          by (intro exI [of _ "?copy # ?ce"] exI [of _ "[CMakeInstall h]"]) simp
      next
        case None
        with pk fx e2 e3 m2 m3 mh pre show ?thesis
          by (intro exI [of _ "?copy # ?ce"] exI [of _ "CMakeInstall h # fx"]) simp
      qed
    qed
  qed
qed

lemma build_steps:
  "handle_first (self_cmake s) (new_events s (snd (build env self s))) \<and>
   events (snd (build env self s)) = events s @ new_events s (snd (build env self s)) \<and>
   self_cmake (snd (build env self s)) =
     memo_after (self_cmake s) (new_events s (snd (build env self s)))"
proof -
  let ?ce = "configure_events env self s"
  let ?b = "case fst (configure_cmake env self s) of Inl e \<Rightarrow> [] | Inr h \<Rightarrow> [CMakeBuild h]"
  have eb: "events (snd (build env self s)) = events s @ ?ce @ ?b"
    by (rule build_events)
  then have nb: "new_events s (snd (build env self s)) = ?ce @ ?b"
    by (rule new_events_append)
  have mb: "self_cmake (snd (build env self s)) = memo_after (self_cmake s) ?ce"
    by (simp add: build_memo configure_cmake_memo)
  have hb: "handle_first (memo_after (self_cmake s) ?ce) ?b"
    using configure_cmake_result [of env self s] configure_cmake_memo [of env self s]
    by (simp split: sum.splits)
  have mb': "memo_after (memo_after (self_cmake s) ?ce) ?b = memo_after (self_cmake s) ?ce"
    by (simp split: sum.splits)
  show ?thesis
    using eb mb hb mb' handle_first_configure_events [of "self_cmake s" env self s]
    by (simp add: nb handle_first_append memo_after_append)
qed

lemma package_steps:
  "handle_first (self_cmake s) (new_events s (snd (package env self s))) \<and>
   events (snd (package env self s)) = events s @ new_events s (snd (package env self s)) \<and>
   self_cmake (snd (package env self s)) =
     memo_after (self_cmake s) (new_events s (snd (package env self s)))"
proof -
  obtain pre post where
    ep: "events (snd (package env self s)) = events s @ pre @ post"
    and hp: "handle_first (self_cmake s) pre"
    and mp: "self_cmake (snd (package env self s)) = memo_after (self_cmake s) pre"
    and post: "post = [] \<or>
      (\<exists>h fx. post = CMakeInstall h # fx \<and> memo_after (self_cmake s) pre = Some h \<and>
         list_all is_fixup fx)"
    using package_shape [of env self s] by blast
  from ep have np: "new_events s (snd (package env self s)) = pre @ post"
    by (rule new_events_append)
  from post have "handle_first (memo_after (self_cmake s) pre) post \<and>
      memo_after (memo_after (self_cmake s) pre) post = memo_after (self_cmake s) pre"
    by (auto simp: handle_first_fixups memo_after_fixups)
  with ep hp mp show ?thesis
    by (simp add: np handle_first_append memo_after_append)
qed

subsection \<open>The package step\<close>

lemma join_lib_folder:
  "pf \<noteq> [] \<Longrightarrow> last pf \<noteq> CHR ''/'' \<Longrightarrow>
   os_path_join (os_path_join pf [''lib'', ''cmake'', ''pybind11'']) [f] =
     (if f \<noteq> [] \<and> hd f = CHR ''/'' then f else pf @ ''/lib/cmake/pybind11/'' @ f)"
  by (simp add: os_path_join_def join_step_def)

lemma config_paths:
  assumes "package_folder self \<noteq> []" "last (package_folder self) \<noteq> CHR ''/''"
  shows "os_path_join (lib_folder self) [''pybind11Config.cmake''] =
           package_folder self @ ''/lib/cmake/pybind11/pybind11Config.cmake''"
    and "os_path_join (lib_folder self) [''pybind11Install.cmake''] =
           package_folder self @ ''/lib/cmake/pybind11/pybind11Install.cmake''"
    and "os_path_join (lib_folder self) [''pybind11ConfigVersion.cmake''] =
           package_folder self @ ''/lib/cmake/pybind11/pybind11ConfigVersion.cmake''"
  using assms by (simp_all add: lib_folder_def join_lib_folder)

lemma os_rename_file:
  "map_of fs src = Some (File c) \<Longrightarrow> src \<noteq> dst \<Longrightarrow> \<not> is_under src dst \<Longrightarrow>
   map_of fs dst \<noteq> Some Dir \<Longrightarrow> os_rename src dst fs = Inr (move src dst fs)"
  by (auto simp: os_rename_def split: option.splits node.splits)

lemma os_unlink_file:
  "map_of fs path = Some (File c) \<Longrightarrow> os_unlink path fs = Inr (filter (\<lambda>(p, n). p \<noteq> path) fs)"
  by (simp add: os_unlink_def)

text \<open>The two fix-ups on files that the install step left in place.\<close>

lemma fix_config_files_ok:
  assumes pf: "package_folder self \<noteq> []" "last (package_folder self) \<noteq> CHR ''/''"
    and cfg: "map_of (files s) (package_folder self @ ''/lib/cmake/pybind11/pybind11Config.cmake'') =
                Some (File c)"
    and inst: "map_of (files s) (package_folder self @ ''/lib/cmake/pybind11/pybind11Install.cmake'') \<noteq>
                Some Dir"
    and ver: "map_of (files s)
                (package_folder self @ ''/lib/cmake/pybind11/pybind11ConfigVersion.cmake'') =
                Some (File v)"
  shows "fst (fix_config_files self s) = None"
    and "map_of (files (snd (fix_config_files self s)))
           (package_folder self @ ''/lib/cmake/pybind11/pybind11Install.cmake'') = Some (File c)"
    and "map_of (files (snd (fix_config_files self s)))
           (package_folder self @ ''/lib/cmake/pybind11/pybind11Config.cmake'') = None"
    and "map_of (files (snd (fix_config_files self s)))
           (package_folder self @ ''/lib/cmake/pybind11/pybind11ConfigVersion.cmake'') = None"
    and "events (snd (fix_config_files self s)) =
           events s @
           [OsRename (package_folder self @ ''/lib/cmake/pybind11/pybind11Config.cmake'')
              (package_folder self @ ''/lib/cmake/pybind11/pybind11Install.cmake''),
            OsUnlink (package_folder self @ ''/lib/cmake/pybind11/pybind11ConfigVersion.cmake'')]"
proof -
  let ?cfg = "package_folder self @ ''/lib/cmake/pybind11/pybind11Config.cmake''"
  let ?inst = "package_folder self @ ''/lib/cmake/pybind11/pybind11Install.cmake''"
  let ?ver = "package_folder self @ ''/lib/cmake/pybind11/pybind11ConfigVersion.cmake''"
  have ne: "?cfg \<noteq> ?inst" "?inst \<noteq> ?ver" "?cfg \<noteq> ?ver" by simp_all
  have nu: "\<not> is_under ?cfg ?inst" "\<not> is_under ?cfg ?ver"
    by (simp_all add: is_under_def)
  have np: "\<not> prefix ?inst ?cfg" "\<not> prefix ?inst ?ver" by simp_all
  have rn: "os_rename ?cfg ?inst (files s) = Inr (move ?cfg ?inst (files s))"
    using cfg ne(1) nu(1) inst by (rule os_rename_file)
  have ver': "map_of (move ?cfg ?inst (files s)) ?ver = Some (File v)"
    using ver ne(3) nu(2) np(2) by (simp add: map_of_move_other)
  have ul: "os_unlink ?ver (move ?cfg ?inst (files s)) =
      Inr (filter (\<lambda>(p, n). p \<noteq> ?ver) (move ?cfg ?inst (files s)))"
    using ver' by (rule os_unlink_file)
  have fx: "fix_config_files self s =
      (None, s\<lparr>files := filter (\<lambda>(p, n). p \<noteq> ?ver) (move ?cfg ?inst (files s)),
               events := events s @ [OsRename ?cfg ?inst, OsUnlink ?ver]\<rparr>)"
    using rn ul
    by (simp add: fix_config_files_def config_paths [OF pf] rename_call_eq unlink_call_eq)
  show "fst (fix_config_files self s) = None" by (simp add: fx)
  show "map_of (files (snd (fix_config_files self s))) ?inst = Some (File c)"
    using ne(2) ne(1) cfg by (simp add: fx map_of_filter_neq_other map_of_move_dst)
  show "map_of (files (snd (fix_config_files self s))) ?cfg = None"
    using ne(3) np(1) by (simp add: fx map_of_filter_neq_other map_of_move_src)
  show "map_of (files (snd (fix_config_files self s))) ?ver = None"
    by (simp add: fx map_of_filter_neq_same)
  show "events (snd (fix_config_files self s)) =
      events s @ [OsRename ?cfg ?inst, OsUnlink ?ver]"
    by (simp add: fx)
qed

lemma package_to_install:
  assumes "copy_call env self ''LICENSE'' source_subfolder ''licenses'' s = (None, s1)"
    and "configure_cmake env self s1 = (Inr h, s2)"
    and "run_install env (objects s2 ! h) (files s2) = (r, fs)"
  shows "package env self s =
           (case r of
              Some e \<Rightarrow> (Some e, s2\<lparr>files := fs, events := events s2 @ [CMakeInstall h]\<rparr>)
            | None \<Rightarrow>
                fix_config_files self (s2\<lparr>files := fs, events := events s2 @ [CMakeInstall h]\<rparr>))"
    and "events s2 =
           events s @ ConanCopy ''LICENSE'' ''source_subfolder'' ''licenses'' #
             configure_events env self s1"
    and "files s1 = snd (run_copy env self ''LICENSE'' ''source_subfolder'' ''licenses'' (files s))"
proof -
  show "package env self s =
      (case r of
         Some e \<Rightarrow> (Some e, s2\<lparr>files := fs, events := events s2 @ [CMakeInstall h]\<rparr>)
       | None \<Rightarrow>
           fix_config_files self (s2\<lparr>files := fs, events := events s2 @ [CMakeInstall h]\<rparr>))"
    using assms by (simp add: package_def cmake_install_eq split: option.splits)
  from assms(1) have "events s1 = events s @ [ConanCopy ''LICENSE'' ''source_subfolder'' ''licenses'']"
    and f1: "files s1 = snd (run_copy env self ''LICENSE'' ''source_subfolder'' ''licenses'' (files s))"
    by (auto simp: copy_call_eq source_subfolder_def)
  then show "events s2 =
      events s @ ConanCopy ''LICENSE'' ''source_subfolder'' ''licenses'' #
        configure_events env self s1"
    using configure_cmake_events [of env self s1] assms(2) by simp
  show "files s1 = snd (run_copy env self ''LICENSE'' ''source_subfolder'' ''licenses'' (files s))"
    by (rule f1)
qed

subsection \<open>The source step\<close>

lemma tools_get_eq:
  "tools_get env url s =
     (case download env url of
        Inl e \<Rightarrow> (Some e, s\<lparr>events := events s @ [ToolsGet url]\<rparr>)
      | Inr ar \<Rightarrow> (None, s\<lparr>files := unpack ar (files s), events := events s @ [ToolsGet url]\<rparr>))"
  by (simp add: tools_get_def emit_def Let_def split: sum.splits)

lemma map_of_unpack_top: "map_of (unpack ar fs) (top_dir ar) = Some Dir"
  by (simp add: unpack_def)

lemma map_of_members:
  "map_of (map (\<lambda>(p, n). (d @ ''/'' @ p, n)) ms @ fs) (d @ ''/'' @ r) =
     (case map_of ms r of Some n \<Rightarrow> Some n | None \<Rightarrow> map_of fs (d @ ''/'' @ r))"
  by (induction ms) auto

lemma map_of_unpack_member:
  "map_of (members ar) r = Some n \<Longrightarrow>
   map_of (unpack ar fs) (top_dir ar @ ''/'' @ r) = Some n"
  using map_of_members [of "top_dir ar" "members ar" fs r]
  by (simp add: unpack_def)

lemma map_of_members_other:
  "\<not> is_under d q \<Longrightarrow> map_of (map (\<lambda>(p, n). (d @ ''/'' @ p, n)) ms @ fs) q = map_of fs q"
  by (induction ms) (auto simp: is_under_def)

lemma map_of_unpack_other:
  "q \<noteq> top_dir ar \<Longrightarrow> \<not> is_under (top_dir ar) q \<Longrightarrow> map_of (unpack ar fs) q = map_of fs q"
  using map_of_members_other [of "top_dir ar" q "members ar" fs]
  by (simp add: unpack_def)

lemma has_children_unpack:
  "has_children d (unpack ar fs) \<longleftrightarrow>
     is_under d (top_dir ar) \<or>
     list_ex (\<lambda>(p, n). is_under d (top_dir ar @ ''/'' @ p)) (members ar) \<or>
     has_children d fs"
  by (auto simp: has_children_def unpack_def list_ex_iff)

lemma no_slash_not_under: "CHR ''/'' \<notin> set q \<Longrightarrow> \<not> is_under d q"
  by (auto simp: is_under_def prefix_def)

lemma rename_call_missing:
  "map_of (files s) src = None \<Longrightarrow>
   rename_call src dst s =
     (Some (FileNotFoundError src), s\<lparr>events := events s @ [OsRename src dst]\<rparr>)"
  by (simp add: rename_call_eq os_rename_def)

lemma source_events:
  "new_events s (snd (source env self s)) =
     ToolsGet (''https://github.com/pybind/pybind11/archive/refs/tags/v'' @ version self @ ''.tar.gz'') #
     (case download env
             (''https://github.com/pybind/pybind11/archive/refs/tags/v'' @ version self @ ''.tar.gz'') of
        Inl e \<Rightarrow> []
      | Inr a \<Rightarrow> [OsRename (name self @ ''-'' @ version self) ''source_subfolder''])"
  by (simp add: source_def tools_get_eq rename_call_eq new_events_def source_subfolder_def
      split: sum.splits)

lemma source_renames:
  assumes nm: "name self = ''pybind11''"
    and dl: "download env
               (''https://github.com/pybind/pybind11/archive/refs/tags/v'' @ version self @ ''.tar.gz'') =
             Inr ar"
    and top: "top_dir ar = ''pybind11-'' @ version self"
    and free: "map_of (files s) ''source_subfolder'' = None"
    and empty: "\<not> has_children ''source_subfolder'' (files s)"
  shows "source env self s =
           (None,
            s\<lparr>files := move (''pybind11-'' @ version self) ''source_subfolder'' (unpack ar (files s)),
              events := events s @
                [ToolsGet (''https://github.com/pybind/pybind11/archive/refs/tags/v'' @
                   version self @ ''.tar.gz''),
                 OsRename (''pybind11-'' @ version self) ''source_subfolder'']\<rparr>)"
    and "\<not> has_children ''source_subfolder'' (unpack ar (files s))"
    and "\<not> is_under (''pybind11-'' @ version self) ''source_subfolder''"
proof -
  let ?nv = "''pybind11-'' @ version self"
  let ?fs = "unpack ar (files s)"
  have ne: "?nv \<noteq> ''source_subfolder''" by simp
  show nu: "\<not> is_under ?nv ''source_subfolder''" by (simp add: is_under_def)
  have nu': "\<not> is_under (top_dir ar) ''source_subfolder''" using nu top by simp
  have src: "map_of ?fs ?nv = Some Dir"
    using map_of_unpack_top [of ar "files s"] top by simp
  have dst: "map_of ?fs ''source_subfolder'' = None"
    using free ne nu' top by (simp add: map_of_unpack_other)
  have rn: "os_rename ?nv ''source_subfolder'' ?fs = Inr (move ?nv ''source_subfolder'' ?fs)"
    using src dst ne nu by (simp add: os_rename_def)
  show "\<not> has_children ''source_subfolder'' ?fs"
    using empty top by (simp add: has_children_unpack is_under_def list_ex_iff split: prod.splits)
  show "source env self s =
      (None,
       s\<lparr>files := move ?nv ''source_subfolder'' ?fs,
         events := events s @
           [ToolsGet (''https://github.com/pybind/pybind11/archive/refs/tags/v'' @
              version self @ ''.tar.gz''),
            OsRename ?nv ''source_subfolder'']\<rparr>)"
    using dl rn nm by (simp add: source_def tools_get_eq rename_call_eq source_subfolder_def)
qed

subsection \<open>The example run\<close>

lemma initial_state_simps:
  "self_cmake initial_state = None" "objects initial_state = []"
  "files initial_state = []" "events initial_state = []"
  by (simp_all add: initial_state_def)

lemma example_new_cmake:
  "new_cmake example_env example_recipe =
     Inr \<lparr>definitions = [''CMAKE_BUILD_TYPE'' \<mapsto> PyStr ''Release'']\<rparr>"
  by (simp add: example_env_def example_recipe_def PyBind11Conan_def example_settings_def)

lemma example_configure:
  "configure_cmake example_env example_recipe initial_state =
     (Inr 0,
      \<lparr>self_cmake = Some 0,
       objects = [configured_object \<lparr>definitions = [''CMAKE_BUILD_TYPE'' \<mapsto> PyStr ''Release'']\<rparr>],
       files = [],
       events =
         [CMakeNew 0,
          CMakeSetDef 0 ''PYBIND11_INSTALL'' (PyBool True),
          CMakeSetDef 0 ''PYBIND11_TEST'' (PyBool False),
          CMakeSetDef 0 ''PYBIND11_CMAKECONFIG_INSTALL_DIR'' (PyStr ''lib/cmake/pybind11''),
          CMakeConfigure 0 ''/src/source_subfolder''
            [(''PYTHON_EXECUTABLE'', PyStr ''/usr/bin/python3'')]]\<rparr>)"
proof -
  have a: "self_cmake initial_state = None" by (simp add: initial_state_def)
  show ?thesis
    unfolding configure_cmake_None [OF a example_new_cmake]
    by (simp add: Let_def initial_state_def example_env_def example_recipe_def PyBind11Conan_def
        os_path_join_def join_step_def)
qed

lemma example_build:
  "new_events initial_state (snd (build example_env example_recipe initial_state)) =
     [CMakeNew 0,
      CMakeSetDef 0 ''PYBIND11_INSTALL'' (PyBool True),
      CMakeSetDef 0 ''PYBIND11_TEST'' (PyBool False),
      CMakeSetDef 0 ''PYBIND11_CMAKECONFIG_INSTALL_DIR'' (PyStr ''lib/cmake/pybind11''),
      CMakeConfigure 0 ''/src/source_subfolder''
        [(''PYTHON_EXECUTABLE'', PyStr ''/usr/bin/python3'')],
      CMakeBuild 0]"
  by (simp add: build_def example_configure cmake_build_eq new_events_def initial_state_simps)

lemma example_configure_from:
  assumes "self_cmake s = None" and "objects s = []"
    and "new_cmake env = new_cmake example_env"
    and "run_configure env = run_configure example_env"
    and "sys_executable env = sys_executable example_env"
  shows "configure_cmake env example_recipe s =
     (Inr 0,
      s\<lparr>self_cmake := Some 0,
        objects := [configured_object \<lparr>definitions = [''CMAKE_BUILD_TYPE'' \<mapsto> PyStr ''Release'']\<rparr>],
        events := events s @
          [CMakeNew 0,
           CMakeSetDef 0 ''PYBIND11_INSTALL'' (PyBool True),
           CMakeSetDef 0 ''PYBIND11_TEST'' (PyBool False),
           CMakeSetDef 0 ''PYBIND11_CMAKECONFIG_INSTALL_DIR'' (PyStr ''lib/cmake/pybind11''),
           CMakeConfigure 0 ''/src/source_subfolder''
             [(''PYTHON_EXECUTABLE'', PyStr ''/usr/bin/python3'')]]\<rparr>)"
proof -
  have n: "new_cmake env example_recipe =
      Inr \<lparr>definitions = [''CMAKE_BUILD_TYPE'' \<mapsto> PyStr ''Release'']\<rparr>"
    using example_new_cmake assms(3) by simp
  have "run_configure env = (\<lambda>c d defs fs. (None, fs))"
    and "sys_executable env = ''/usr/bin/python3''"
    and "source_folder example_recipe = ''/src''"
    using assms(4,5) by (simp_all add: example_env_def example_recipe_def PyBind11Conan_def)
  then show ?thesis
    unfolding configure_cmake_None [OF assms(1) n]
    using assms(2) by (simp add: Let_def os_path_join_def join_step_def)
qed

lemma example_copy_from:
  assumes "run_copy env = run_copy example_env"
  shows "copy_call env example_recipe ''LICENSE'' source_subfolder ''licenses'' initial_state =
     (None,
      \<lparr>self_cmake = None, objects = [], files = [(''/pkg/licenses/LICENSE'', File ''BSD'')],
       events = [ConanCopy ''LICENSE'' ''source_subfolder'' ''licenses'']\<rparr>)"
  using assms
  by (simp add: copy_call_eq example_env_def example_recipe_def PyBind11Conan_def
      initial_state_def source_subfolder_def os_path_join_def join_step_def)

section \<open>The claims\<close>

subsection \<open>C4: the exported metadata\<close>

text \<open>
  C4 as stated (exactly one include directory) fails: \<^verbatim>\<open>package_info\<close> appends to the
  include directories that \<^verbatim>\<open>cpp_info\<close> already holds, and Conan starts them with
  \<^verbatim>\<open>include\<close>, so the list has two entries.
\<close>

theorem package_info_one_includedir_counterexample:
  "length (includedirs (package_info example_recipe default_cpp_info)) = 2 \<and>
   length (includedirs (package_info example_recipe default_cpp_info)) \<noteq> 1"
  by (simp add: package_info_includedirs default_cpp_info_def)

text \<open>
  C4, amended: \<^verbatim>\<open>package_info\<close> appends exactly one include directory to those already
  listed, sets exactly one build-integration directory and exactly two build-integration
  files, \<^verbatim>\<open>FindPythonLibsNew.cmake\<close> first and \<^verbatim>\<open>pybind11Install.cmake\<close> second, and
  the result does not depend on the settings of the recipe.
\<close>

theorem package_info_lists:
  "includedirs (package_info self ci) =
     includedirs ci @ [os_path_join (package_folder self) [''include'', ''pybind11'']] \<and>
   length (includedirs (package_info self ci)) = length (includedirs ci) + 1 \<and>
   builddirs (package_info self ci) = [''lib/cmake/pybind11''] \<and>
   build_modules (package_info self ci) =
     [''lib/cmake/pybind11/FindPythonLibsNew.cmake'', ''lib/cmake/pybind11/pybind11Install.cmake''] \<and>
   package_info (self\<lparr>settings := st\<rparr>) ci = package_info self ci"
  by (simp add: package_info_includedirs package_info_builddirs package_info_build_modules
        package_info_settings)

theorem package_info_lists_witness:
  "includedirs (package_info example_recipe default_cpp_info) =
     [''include'', ''/pkg/include/pybind11''] \<and>
   length (includedirs (package_info example_recipe default_cpp_info)) = 2 \<and>
   builddirs (package_info example_recipe default_cpp_info) = [''lib/cmake/pybind11''] \<and>
   build_modules (package_info example_recipe default_cpp_info) =
     [''lib/cmake/pybind11/FindPythonLibsNew.cmake'', ''lib/cmake/pybind11/pybind11Install.cmake''] \<and>
   package_info (example_recipe\<lparr>settings := example_settings\<lparr>os := ''Windows''\<rparr>\<rparr>) default_cpp_info =
     package_info example_recipe default_cpp_info"
  using package_info_lists [where self = example_recipe and ci = default_cpp_info
      and st = "example_settings\<lparr>os := ''Windows''\<rparr>"]
  by (simp add: example_recipe_def PyBind11Conan_def default_cpp_info_def
        os_path_join_def join_step_def)

subsection \<open>C10: which exported paths are absolute\<close>

text \<open>
  C10: after \<^verbatim>\<open>package_info\<close>, the include directories are Conan's entry \<^verbatim>\<open>include\<close>
  followed by the package folder joined with \<^verbatim>\<open>include/pybind11\<close>, which is absolute
  as the package folder is; the build-integration directory and the two build-module
  files are the fixed relative paths, whatever the package folder. The package folder
  is a path that is not empty and does not end with the separator, as Conan gives it.
\<close>

theorem package_info_paths:
  assumes "includedirs ci = [''include'']"
    and "prefix ''/'' (package_folder self)"
    and "last (package_folder self) \<noteq> CHR ''/''"
  shows "includedirs (package_info self ci) =
           [''include'', package_folder self @ ''/include/pybind11''] \<and>
         prefix ''/'' (includedirs (package_info self ci) ! 1) \<and>
         builddirs (package_info self ci) = [''lib/cmake/pybind11''] \<and>
         build_modules (package_info self ci) =
           [''lib/cmake/pybind11/FindPythonLibsNew.cmake'',
            ''lib/cmake/pybind11/pybind11Install.cmake''] \<and>
         \<not> prefix ''/'' (hd (builddirs (package_info self ci))) \<and>
         list_all (\<lambda>m. \<not> prefix ''/'' m) (build_modules (package_info self ci))"
proof -
  from assms(2) have ne: "package_folder self \<noteq> []" by auto
  have inc: "includedirs (package_info self ci) =
      [''include'', package_folder self @ ''/include/pybind11'']"
    using assms(1) ne assms(3) by (simp add: package_info_includedirs join_include)
  moreover have "prefix ''/'' (package_folder self @ ''/include/pybind11'')"
    using assms(2) by (auto simp: prefix_def)
  ultimately show ?thesis
    by (simp add: package_info_builddirs package_info_build_modules)
qed

theorem package_info_paths_witness:
  "includedirs (package_info example_recipe default_cpp_info) =
     [''include'', ''/pkg/include/pybind11''] \<and>
   prefix ''/'' (includedirs (package_info example_recipe default_cpp_info) ! 1) \<and>
   builddirs (package_info example_recipe default_cpp_info) = [''lib/cmake/pybind11''] \<and>
   build_modules (package_info example_recipe default_cpp_info) =
     [''lib/cmake/pybind11/FindPythonLibsNew.cmake'', ''lib/cmake/pybind11/pybind11Install.cmake'']"
proof -
  have a: "includedirs default_cpp_info = [''include'']"
    by (simp add: default_cpp_info_def)
  have b: "prefix ''/'' (package_folder example_recipe)"
    by (simp add: example_recipe_def PyBind11Conan_def)
  have c: "last (package_folder example_recipe) \<noteq> CHR ''/''"
    by (simp add: example_recipe_def PyBind11Conan_def)
  show ?thesis
    using package_info_paths [OF a b c] by (simp add: example_recipe_def PyBind11Conan_def)
qed

subsection \<open>C5: the package identity\<close>

text \<open>
  C5: two runs of \<^verbatim>\<open>package_id\<close> whose recipes differ only in the values of the
  settings (compiler, architecture, build type, operating system) leave the same
  \<^verbatim>\<open>self.info\<close>, so the package id computed from it is the same.
\<close>

theorem package_id_ignores_settings:
  "package_id (info_of (self\<lparr>settings := st1\<rparr>)) = package_id (info_of (self\<lparr>settings := st2\<rparr>)) \<and>
   package_id (i\<lparr>info_settings := a\<rparr>) = package_id (i\<lparr>info_settings := b\<rparr>) \<and>
   info_settings (package_id i) = []"
  by (simp add: package_id_def header_only_def info_of_def)

theorem package_id_ignores_settings_witness:
  "package_id (info_of (example_recipe\<lparr>settings := example_settings\<rparr>)) =
   package_id (info_of (example_recipe\<lparr>settings :=
     \<lparr>os = ''Linux'', arch = ''armv8'', compiler = ''clang'', build_type = ''Debug''\<rparr>\<rparr>)) \<and>
   info_settings (package_id (info_of example_recipe)) = []"
  using package_id_ignores_settings [where self = example_recipe and ?st1.0 = example_settings
      and ?st2.0 = "\<lparr>os = ''Linux'', arch = ''armv8'', compiler = ''clang'', build_type = ''Debug''\<rparr>"
      and i = "info_of example_recipe" and a = "[]" and b = "[]"]
  by simp

subsection \<open>C6: the first construction of the build configuration\<close>

text \<open>
  C6: when \<^verbatim>\<open>_configure_cmake\<close> constructs the helper (\<^verbatim>\<open>self._cmake\<close> is \<^verbatim>\<open>None\<close>
  and the constructor returns an object), the object is stored as \<^verbatim>\<open>self._cmake\<close>,
  exactly three definitions are set on it (\<^verbatim>\<open>PYBIND11_INSTALL = True\<close>,
  \<^verbatim>\<open>PYBIND11_TEST = False\<close> and
  \<^verbatim>\<open>PYBIND11_CMAKECONFIG_INSTALL_DIR = "lib/cmake/pybind11"\<close>, the other definitions
  staying as the constructor left them), and the configure step runs on it with the
  source folder joined with \<^verbatim>\<open>source_subfolder\<close> as the source directory and the
  interpreter path as the override \<^verbatim>\<open>PYTHON_EXECUTABLE\<close>. The method returns the new
  reference, or the error of the configure step.
\<close>

theorem configure_cmake_first_construction:
  assumes "self_cmake s = None" and "new_cmake env self = Inr c"
  shows
    "self_cmake (snd (configure_cmake env self s)) = Some (length (objects s)) \<and>
     objects (snd (configure_cmake env self s)) =
       objects s @
       [c\<lparr>definitions := (definitions c)
            (''PYBIND11_INSTALL'' \<mapsto> PyBool True,
             ''PYBIND11_TEST'' \<mapsto> PyBool False,
             ''PYBIND11_CMAKECONFIG_INSTALL_DIR'' \<mapsto> PyStr ''lib/cmake/pybind11'')\<rparr>] \<and>
     new_events s (snd (configure_cmake env self s)) =
       [CMakeNew (length (objects s)),
        CMakeSetDef (length (objects s)) ''PYBIND11_INSTALL'' (PyBool True),
        CMakeSetDef (length (objects s)) ''PYBIND11_TEST'' (PyBool False),
        CMakeSetDef (length (objects s)) ''PYBIND11_CMAKECONFIG_INSTALL_DIR''
          (PyStr ''lib/cmake/pybind11''),
        CMakeConfigure (length (objects s))
          (os_path_join (source_folder self) [''source_subfolder''])
          [(''PYTHON_EXECUTABLE'', PyStr (sys_executable env))]] \<and>
     length (filter is_set_def (new_events s (snd (configure_cmake env self s)))) = 3 \<and>
     (fst (configure_cmake env self s), files (snd (configure_cmake env self s))) =
       (case run_configure env (configured_object c)
               (os_path_join (source_folder self) [''source_subfolder''])
               [(''PYTHON_EXECUTABLE'', PyStr (sys_executable env))] (files s) of
          (Some e, fs) \<Rightarrow> (Inl e, fs)
        | (None, fs) \<Rightarrow> (Inr (length (objects s)), fs))"
  using assms
  by (simp add: configure_cmake_None Let_def configured_object_def split: prod.splits option.splits)

theorem configure_cmake_first_construction_witness:
  "self_cmake (snd (configure_cmake example_env example_recipe initial_state)) = Some 0 \<and>
   definitions (objects (snd (configure_cmake example_env example_recipe initial_state)) ! 0)
     ''PYBIND11_INSTALL'' = Some (PyBool True) \<and>
   definitions (objects (snd (configure_cmake example_env example_recipe initial_state)) ! 0)
     ''PYBIND11_TEST'' = Some (PyBool False) \<and>
   definitions (objects (snd (configure_cmake example_env example_recipe initial_state)) ! 0)
     ''PYBIND11_CMAKECONFIG_INSTALL_DIR'' = Some (PyStr ''lib/cmake/pybind11'') \<and>
   definitions (objects (snd (configure_cmake example_env example_recipe initial_state)) ! 0)
     ''CMAKE_BUILD_TYPE'' = Some (PyStr ''Release'') \<and>
   new_events initial_state (snd (configure_cmake example_env example_recipe initial_state)) =
     [CMakeNew 0,
      CMakeSetDef 0 ''PYBIND11_INSTALL'' (PyBool True),
      CMakeSetDef 0 ''PYBIND11_TEST'' (PyBool False),
      CMakeSetDef 0 ''PYBIND11_CMAKECONFIG_INSTALL_DIR'' (PyStr ''lib/cmake/pybind11''),
      CMakeConfigure 0 ''/src/source_subfolder''
        [(''PYTHON_EXECUTABLE'', PyStr ''/usr/bin/python3'')]] \<and>
   fst (configure_cmake example_env example_recipe initial_state) = Inr 0"
proof -
  have a: "self_cmake initial_state = None" by (simp add: initial_state_def)
  show ?thesis
    using configure_cmake_first_construction [OF a example_new_cmake]
    by (simp add: initial_state_def example_env_def example_recipe_def PyBind11Conan_def
        os_path_join_def join_step_def configured_object_def)
qed

subsection \<open>C2: the build configuration is memoized\<close>

text \<open>
  C2: in a run that starts with \<^verbatim>\<open>self._cmake\<close> unset, when a call of
  \<^verbatim>\<open>_configure_cmake\<close> returns a helper, a second call returns the same reference and
  leaves the state as it is (no new object, no new event); the events of the two calls
  hold exactly one construction, three definition settings and one configure step.
\<close>

theorem configure_cmake_memoized:
  assumes "self_cmake s = None" and "configure_cmake env self s = (Inr h, s1)"
  shows
    "configure_cmake env self s1 = (Inr h, s1) \<and>
     self_cmake s1 = Some h \<and>
     h < length (objects s1) \<and>
     length (filter is_new (new_events s s1)) = 1 \<and>
     length (filter is_set_def (new_events s s1)) = 3 \<and>
     length (filter is_configure (new_events s s1)) = 1 \<and>
     new_events s (snd (configure_cmake env self s1)) = new_events s s1"
proof (cases "new_cmake env self")
  case (Inl e)
  with assms show ?thesis by (simp add: configure_cmake_fail)
next
  case (Inr c)
  from assms(2) have "self_cmake s1 = Some h"
    using configure_cmake_result [of env self s h] by simp
  then have again: "configure_cmake env self s1 = (Inr h, s1)"
    by (rule configure_cmake_Some)
  from assms Inr have "h = length (objects s)"
    and "objects s1 = objects s @ [configured_object c]"
    and "new_events s s1 =
       [CMakeNew h,
        CMakeSetDef h ''PYBIND11_INSTALL'' (PyBool True),
        CMakeSetDef h ''PYBIND11_TEST'' (PyBool False),
        CMakeSetDef h ''PYBIND11_CMAKECONFIG_INSTALL_DIR'' (PyStr ''lib/cmake/pybind11''),
        CMakeConfigure h (os_path_join (source_folder self) [''source_subfolder''])
          [(''PYTHON_EXECUTABLE'', PyStr (sys_executable env))]]"
    by (auto simp: configure_cmake_None Let_def split: option.splits)
  with again \<open>self_cmake s1 = Some h\<close> show ?thesis by simp
qed

theorem configure_cmake_memoized_witness:
  "configure_cmake example_env example_recipe
     (snd (configure_cmake example_env example_recipe initial_state)) =
     (Inr 0, snd (configure_cmake example_env example_recipe initial_state)) \<and>
   self_cmake (snd (configure_cmake example_env example_recipe initial_state)) = Some 0 \<and>
   length (filter is_configure
     (new_events initial_state (snd (configure_cmake example_env example_recipe initial_state)))) = 1 \<and>
   length (filter is_configure
     (new_events initial_state
        (snd (configure_cmake example_env example_recipe
           (snd (configure_cmake example_env example_recipe initial_state)))))) = 1"
proof -
  have a: "self_cmake initial_state = None" by (simp add: initial_state_def)
  have b: "configure_cmake example_env example_recipe initial_state =
      (Inr 0, snd (configure_cmake example_env example_recipe initial_state))"
    by (simp add: example_configure)
  show ?thesis
    using configure_cmake_memoized [OF a b] by simp
qed

subsection \<open>C8: no build or install step before the helper exists\<close>

text \<open>
  C8: in the events that \<^verbatim>\<open>build\<close> and \<^verbatim>\<open>package\<close> add, from any state, every build
  step and every install step is on the helper that \<^verbatim>\<open>self._cmake\<close> refers to at that
  moment: the helper was memoized before the method started, or the method constructed
  it earlier in its own events. The events of a method extend those before it, and
  \<^verbatim>\<open>self._cmake\<close> after the method is what its events leave, so the property carries
  over a sequence of methods: it holds of the events of \<^verbatim>\<open>build\<close> followed by
  \<^verbatim>\<open>package\<close>.
\<close>

theorem tool_steps_after_handle:
  "handle_first (self_cmake s) (new_events s (snd (build env self s))) \<and>
   events (snd (build env self s)) = events s @ new_events s (snd (build env self s)) \<and>
   self_cmake (snd (build env self s)) =
     memo_after (self_cmake s) (new_events s (snd (build env self s))) \<and>
   handle_first (self_cmake s) (new_events s (snd (package env self s))) \<and>
   events (snd (package env self s)) = events s @ new_events s (snd (package env self s)) \<and>
   self_cmake (snd (package env self s)) =
     memo_after (self_cmake s) (new_events s (snd (package env self s))) \<and>
   handle_first (self_cmake s)
     (new_events s (snd (package env self (snd (build env self s)))))"
proof -
  let ?s1 = "snd (build env self s)"
  let ?s2 = "snd (package env self ?s1)"
  note b = build_steps [of s env self]
  note p = package_steps [of ?s1 env self]
  from b p have "events ?s2 = events s @ new_events s ?s1 @ new_events ?s1 ?s2"
    by simp
  then have "new_events s ?s2 = new_events s ?s1 @ new_events ?s1 ?s2"
    by (rule new_events_append)
  with b p have "handle_first (self_cmake s) (new_events s ?s2)"
    by (simp add: handle_first_append)
  with b package_steps [of s env self] show ?thesis by simp
qed

theorem tool_steps_after_handle_witness:
  "handle_first None
     [CMakeNew 0,
      CMakeSetDef 0 ''PYBIND11_INSTALL'' (PyBool True),
      CMakeSetDef 0 ''PYBIND11_TEST'' (PyBool False),
      CMakeSetDef 0 ''PYBIND11_CMAKECONFIG_INSTALL_DIR'' (PyStr ''lib/cmake/pybind11''),
      CMakeConfigure 0 ''/src/source_subfolder''
        [(''PYTHON_EXECUTABLE'', PyStr ''/usr/bin/python3'')],
      CMakeBuild 0] \<and>
   self_cmake (snd (build example_env example_recipe initial_state)) = Some 0 \<and>
   handle_first None
     (new_events initial_state (snd (package example_env example_recipe initial_state))) \<and>
   \<not> handle_first None [CMakeBuild 0]"
  using tool_steps_after_handle [of initial_state example_env example_recipe]
  by (simp add: example_build initial_state_simps)

subsection \<open>C7: what the package step leaves in the package folder\<close>

text \<open>
  C7: \<^verbatim>\<open>package\<close> first calls \<^verbatim>\<open>self.copy("LICENSE", src="source_subfolder",
  dst="licenses")\<close>, then configures and installs; when these succeed and the install
  step has left the files \<^verbatim>\<open>pybind11Config.cmake\<close> and \<^verbatim>\<open>pybind11ConfigVersion.cmake\<close>
  in \<^verbatim>\<open>lib/cmake/pybind11\<close> of the package folder, \<^verbatim>\<open>package\<close> succeeds, and
  afterwards \<^verbatim>\<open>pybind11Install.cmake\<close> holds what \<^verbatim>\<open>pybind11Config.cmake\<close> held,
  \<^verbatim>\<open>pybind11Config.cmake\<close> is gone and \<^verbatim>\<open>pybind11ConfigVersion.cmake\<close> is gone; the
  rename and the unlink are the last two calls, after the install step. The package
  folder is a path that is not empty and does not end with the separator.
\<close>

theorem package_outputs:
  assumes "package_folder self \<noteq> []" and "last (package_folder self) \<noteq> CHR ''/''"
    and "copy_call env self ''LICENSE'' source_subfolder ''licenses'' s = (None, s1)"
    and "configure_cmake env self s1 = (Inr h, s2)"
    and "run_install env (objects s2 ! h) (files s2) = (None, fs)"
    and "map_of fs (package_folder self @ ''/lib/cmake/pybind11/pybind11Config.cmake'') =
           Some (File c)"
    and "map_of fs (package_folder self @ ''/lib/cmake/pybind11/pybind11Install.cmake'') \<noteq>
           Some Dir"
    and "map_of fs (package_folder self @ ''/lib/cmake/pybind11/pybind11ConfigVersion.cmake'') =
           Some (File v)"
  shows
    "fst (package env self s) = None \<and>
     new_events s (snd (package env self s)) =
       ConanCopy ''LICENSE'' ''source_subfolder'' ''licenses'' # configure_events env self s1 @
       [CMakeInstall h,
        OsRename (package_folder self @ ''/lib/cmake/pybind11/pybind11Config.cmake'')
          (package_folder self @ ''/lib/cmake/pybind11/pybind11Install.cmake''),
        OsUnlink (package_folder self @ ''/lib/cmake/pybind11/pybind11ConfigVersion.cmake'')] \<and>
     files s1 = snd (run_copy env self ''LICENSE'' ''source_subfolder'' ''licenses'' (files s)) \<and>
     map_of (files (snd (package env self s)))
       (package_folder self @ ''/lib/cmake/pybind11/pybind11Install.cmake'') = Some (File c) \<and>
     map_of (files (snd (package env self s)))
       (package_folder self @ ''/lib/cmake/pybind11/pybind11Config.cmake'') = None \<and>
     map_of (files (snd (package env self s)))
       (package_folder self @ ''/lib/cmake/pybind11/pybind11ConfigVersion.cmake'') = None"
proof -
  let ?s3 = "s2\<lparr>files := fs, events := events s2 @ [CMakeInstall h]\<rparr>"
  have pk: "package env self s = fix_config_files self ?s3"
    using package_to_install(1) [OF assms(3,4,5)] by simp
  have ev: "events s2 =
      events s @ ConanCopy ''LICENSE'' ''source_subfolder'' ''licenses'' #
        configure_events env self s1"
    by (rule package_to_install(2) [OF assms(3,4,5)])
  have f1: "files s1 = snd (run_copy env self ''LICENSE'' ''source_subfolder'' ''licenses'' (files s))"
    by (rule package_to_install(3) [OF assms(3,4,5)])
  have a: "map_of (files ?s3) (package_folder self @ ''/lib/cmake/pybind11/pybind11Config.cmake'') =
      Some (File c)"
    using assms(6) by simp
  have b: "map_of (files ?s3) (package_folder self @ ''/lib/cmake/pybind11/pybind11Install.cmake'') \<noteq>
      Some Dir"
    using assms(7) by simp
  have d: "map_of (files ?s3)
      (package_folder self @ ''/lib/cmake/pybind11/pybind11ConfigVersion.cmake'') = Some (File v)"
    using assms(8) by simp
  note fx = fix_config_files_ok [OF assms(1,2) a b d]
  have "events (snd (package env self s)) =
      events s @ ConanCopy ''LICENSE'' ''source_subfolder'' ''licenses'' #
        configure_events env self s1 @
        [CMakeInstall h,
         OsRename (package_folder self @ ''/lib/cmake/pybind11/pybind11Config.cmake'')
           (package_folder self @ ''/lib/cmake/pybind11/pybind11Install.cmake''),
         OsUnlink (package_folder self @ ''/lib/cmake/pybind11/pybind11ConfigVersion.cmake'')]"
    using fx(5) ev by (simp add: pk)
  then have "new_events s (snd (package env self s)) =
      ConanCopy ''LICENSE'' ''source_subfolder'' ''licenses'' # configure_events env self s1 @
        [CMakeInstall h,
         OsRename (package_folder self @ ''/lib/cmake/pybind11/pybind11Config.cmake'')
           (package_folder self @ ''/lib/cmake/pybind11/pybind11Install.cmake''),
         OsUnlink (package_folder self @ ''/lib/cmake/pybind11/pybind11ConfigVersion.cmake'')]"
    by (rule new_events_append)
  with fx(1-4) f1 show ?thesis by (simp add: pk)
qed

theorem package_outputs_witness:
  "fst (package example_env example_recipe initial_state) = None \<and>
   new_events initial_state (snd (package example_env example_recipe initial_state)) =
     [ConanCopy ''LICENSE'' ''source_subfolder'' ''licenses'',
      CMakeNew 0,
      CMakeSetDef 0 ''PYBIND11_INSTALL'' (PyBool True),
      CMakeSetDef 0 ''PYBIND11_TEST'' (PyBool False),
      CMakeSetDef 0 ''PYBIND11_CMAKECONFIG_INSTALL_DIR'' (PyStr ''lib/cmake/pybind11''),
      CMakeConfigure 0 ''/src/source_subfolder''
        [(''PYTHON_EXECUTABLE'', PyStr ''/usr/bin/python3'')],
      CMakeInstall 0,
      OsRename ''/pkg/lib/cmake/pybind11/pybind11Config.cmake''
        ''/pkg/lib/cmake/pybind11/pybind11Install.cmake'',
      OsUnlink ''/pkg/lib/cmake/pybind11/pybind11ConfigVersion.cmake''] \<and>
   map_of (files (snd (package example_env example_recipe initial_state)))
     ''/pkg/lib/cmake/pybind11/pybind11Install.cmake'' = Some (File ''config'') \<and>
   map_of (files (snd (package example_env example_recipe initial_state)))
     ''/pkg/lib/cmake/pybind11/pybind11Config.cmake'' = None \<and>
   map_of (files (snd (package example_env example_recipe initial_state)))
     ''/pkg/lib/cmake/pybind11/pybind11ConfigVersion.cmake'' = None"
proof -
  let ?s1 = "\<lparr>self_cmake = None, objects = [], files = [(''/pkg/licenses/LICENSE'', File ''BSD'')],
       events = [ConanCopy ''LICENSE'' ''source_subfolder'' ''licenses'']\<rparr>"
  let ?fs = "[(''/pkg/lib/cmake/pybind11/pybind11Config.cmake'', File ''config''),
       (''/pkg/lib/cmake/pybind11/pybind11ConfigVersion.cmake'', File ''version''),
       (''/pkg/licenses/LICENSE'', File ''BSD'')]"
  have pf: "package_folder example_recipe = ''/pkg''"
    by (simp add: example_recipe_def PyBind11Conan_def)
  have a: "package_folder example_recipe \<noteq> []" by (simp add: pf)
  have b: "last (package_folder example_recipe) \<noteq> CHR ''/''" by (simp add: pf)
  have c: "copy_call example_env example_recipe ''LICENSE'' source_subfolder ''licenses''
      initial_state = (None, ?s1)"
    by (rule example_copy_from) simp
  have d: "configure_cmake example_env example_recipe ?s1 = (Inr 0, after_configure)"
    by (simp add: example_configure_from after_configure_def)
  have e: "run_install example_env (objects after_configure ! 0) (files after_configure) =
      (None, ?fs)"
    by (simp add: example_env_def after_configure_def)
  have f: "map_of ?fs (package_folder example_recipe @ ''/lib/cmake/pybind11/pybind11Config.cmake'') =
      Some (File ''config'')"
    by (simp add: pf)
  have g: "map_of ?fs (package_folder example_recipe @ ''/lib/cmake/pybind11/pybind11Install.cmake'') \<noteq>
      Some Dir"
    by (simp add: pf)
  have h: "map_of ?fs
      (package_folder example_recipe @ ''/lib/cmake/pybind11/pybind11ConfigVersion.cmake'') =
      Some (File ''version'')"
    by (simp add: pf)
  have ce: "configure_events example_env example_recipe ?s1 =
     [CMakeNew 0,
      CMakeSetDef 0 ''PYBIND11_INSTALL'' (PyBool True),
      CMakeSetDef 0 ''PYBIND11_TEST'' (PyBool False),
      CMakeSetDef 0 ''PYBIND11_CMAKECONFIG_INSTALL_DIR'' (PyStr ''lib/cmake/pybind11''),
      CMakeConfigure 0 ''/src/source_subfolder''
        [(''PYTHON_EXECUTABLE'', PyStr ''/usr/bin/python3'')]]"
    by (simp add: configure_events_def example_new_cmake)
       (simp add: example_env_def example_recipe_def PyBind11Conan_def os_path_join_def
          join_step_def)
  show ?thesis
    using package_outputs [OF a b c d e f g h] by (simp add: pf ce)
qed

subsection \<open>C3: install comes before the rename and the delete\<close>

text \<open>
  C3: in the events that \<^verbatim>\<open>package\<close> adds, from any state and with any tools, every
  rename and every unlink comes after an install step; and when the install step raises,
  \<^verbatim>\<open>package\<close> raises the same error, the install step is its last call (no rename, no
  unlink), and the files are as the install step left them.
\<close>

theorem package_install_first:
  "install_first False (new_events s (snd (package env self s))) \<and>
   (copy_call env self ''LICENSE'' source_subfolder ''licenses'' s = (None, s1) \<and>
    configure_cmake env self s1 = (Inr h, s2) \<and>
    run_install env (objects s2 ! h) (files s2) = (Some e, fs) \<longrightarrow>
      fst (package env self s) = Some e \<and>
      files (snd (package env self s)) = fs \<and>
      new_events s (snd (package env self s)) =
        ConanCopy ''LICENSE'' ''source_subfolder'' ''licenses'' # configure_events env self s1 @
        [CMakeInstall h] \<and>
      \<not> list_ex is_fixup (new_events s (snd (package env self s))))"
proof -
  obtain pre post where
    ep: "events (snd (package env self s)) = events s @ pre @ post"
    and nf: "\<not> list_ex is_fixup pre"
    and ni: "\<not> list_ex (\<lambda>e. \<exists>h. e = CMakeInstall h) pre"
    and post: "post = [] \<or>
      (\<exists>h fx. post = CMakeInstall h # fx \<and> memo_after (self_cmake s) pre = Some h \<and>
         list_all is_fixup fx)"
    using package_shape [of env self s] by blast
  from ep have "new_events s (snd (package env self s)) = pre @ post"
    by (rule new_events_append)
  moreover have "install_first False (pre @ post)"
    using nf post by (auto simp: install_first_no_fixup install_first_True)
  ultimately have first: "install_first False (new_events s (snd (package env self s)))"
    by simp
  have fail:
    "fst (package env self s) = Some e \<and>
     files (snd (package env self s)) = fs \<and>
     new_events s (snd (package env self s)) =
       ConanCopy ''LICENSE'' ''source_subfolder'' ''licenses'' # configure_events env self s1 @
       [CMakeInstall h] \<and>
     \<not> list_ex is_fixup (new_events s (snd (package env self s)))"
    if a: "copy_call env self ''LICENSE'' source_subfolder ''licenses'' s = (None, s1)"
      and b: "configure_cmake env self s1 = (Inr h, s2)"
      and c: "run_install env (objects s2 ! h) (files s2) = (Some e, fs)"
  proof -
    have pk: "package env self s =
        (Some e, s2\<lparr>files := fs, events := events s2 @ [CMakeInstall h]\<rparr>)"
      using package_to_install(1) [OF a b c] by simp
    have ev: "events s2 =
        events s @ ConanCopy ''LICENSE'' ''source_subfolder'' ''licenses'' #
          configure_events env self s1"
      by (rule package_to_install(2) [OF a b c])
    have "events (snd (package env self s)) =
        events s @ ConanCopy ''LICENSE'' ''source_subfolder'' ''licenses'' #
          configure_events env self s1 @ [CMakeInstall h]"
      using ev by (simp add: pk)
    then have ne: "new_events s (snd (package env self s)) =
        ConanCopy ''LICENSE'' ''source_subfolder'' ''licenses'' # configure_events env self s1 @
          [CMakeInstall h]"
      by (rule new_events_append)
    show ?thesis
      using no_fixup_configure_events [of env self s1] by (simp add: ne) (simp add: pk)
  qed
  from first fail show ?thesis by blast
qed

theorem package_install_first_witness:
  "install_first False
     (new_events initial_state (snd (package example_env example_recipe initial_state))) \<and>
   fst (package failing_install_env example_recipe initial_state) =
     Some (ConanException ''install'') \<and>
   new_events initial_state (snd (package failing_install_env example_recipe initial_state)) =
     [ConanCopy ''LICENSE'' ''source_subfolder'' ''licenses'',
      CMakeNew 0,
      CMakeSetDef 0 ''PYBIND11_INSTALL'' (PyBool True),
      CMakeSetDef 0 ''PYBIND11_TEST'' (PyBool False),
      CMakeSetDef 0 ''PYBIND11_CMAKECONFIG_INSTALL_DIR'' (PyStr ''lib/cmake/pybind11''),
      CMakeConfigure 0 ''/src/source_subfolder''
        [(''PYTHON_EXECUTABLE'', PyStr ''/usr/bin/python3'')],
      CMakeInstall 0] \<and>
   map_of (files (snd (package failing_install_env example_recipe initial_state)))
     ''/pkg/lib/cmake/pybind11/pybind11Config.cmake'' = Some (File ''config'') \<and>
   map_of (files (snd (package failing_install_env example_recipe initial_state)))
     ''/pkg/lib/cmake/pybind11/pybind11Install.cmake'' = None \<and>
   \<not> install_first False
     [OsRename ''/pkg/lib/cmake/pybind11/pybind11Config.cmake''
        ''/pkg/lib/cmake/pybind11/pybind11Install.cmake'',
      CMakeInstall 0]"
proof -
  let ?s1 = "\<lparr>self_cmake = None, objects = [], files = [(''/pkg/licenses/LICENSE'', File ''BSD'')],
       events = [ConanCopy ''LICENSE'' ''source_subfolder'' ''licenses'']\<rparr>"
  let ?fs = "[(''/pkg/lib/cmake/pybind11/pybind11Config.cmake'', File ''config''),
       (''/pkg/licenses/LICENSE'', File ''BSD'')]"
  have c: "copy_call failing_install_env example_recipe ''LICENSE'' source_subfolder ''licenses''
      initial_state = (None, ?s1)"
    by (rule example_copy_from) (simp add: failing_install_env_def)
  have d: "configure_cmake failing_install_env example_recipe ?s1 = (Inr 0, after_configure)"
    by (simp add: example_configure_from after_configure_def failing_install_env_def)
  have e: "run_install failing_install_env (objects after_configure ! 0) (files after_configure) =
      (Some (ConanException ''install''), ?fs)"
    by (simp add: failing_install_env_def after_configure_def)
  have ce: "configure_events failing_install_env example_recipe ?s1 =
     [CMakeNew 0,
      CMakeSetDef 0 ''PYBIND11_INSTALL'' (PyBool True),
      CMakeSetDef 0 ''PYBIND11_TEST'' (PyBool False),
      CMakeSetDef 0 ''PYBIND11_CMAKECONFIG_INSTALL_DIR'' (PyStr ''lib/cmake/pybind11''),
      CMakeConfigure 0 ''/src/source_subfolder''
        [(''PYTHON_EXECUTABLE'', PyStr ''/usr/bin/python3'')]]"
    by (simp add: configure_events_def failing_install_env_def example_new_cmake)
       (simp add: example_env_def example_recipe_def PyBind11Conan_def os_path_join_def
          join_step_def)
  have ok: "install_first False
      (new_events initial_state (snd (package example_env example_recipe initial_state)))"
    using package_install_first [of initial_state example_env example_recipe] by simp
  have fail: "fst (package failing_install_env example_recipe initial_state) =
        Some (ConanException ''install'') \<and>
      files (snd (package failing_install_env example_recipe initial_state)) = ?fs \<and>
      new_events initial_state (snd (package failing_install_env example_recipe initial_state)) =
        ConanCopy ''LICENSE'' ''source_subfolder'' ''licenses'' #
          configure_events failing_install_env example_recipe ?s1 @ [CMakeInstall 0]"
    using package_install_first [where s = initial_state and env = failing_install_env
        and self = example_recipe and ?s1.0 = ?s1 and h = 0 and ?s2.0 = after_configure
        and e = "ConanException ''install''" and fs = ?fs] c d e
    by simp
  from ok fail show ?thesis by (simp add: ce)
qed

subsection \<open>C1: the fetch and the rename of the source step\<close>

text \<open>
  C1 as stated (the extracted top-level directory is renamed whatever its name) fails:
  \<^verbatim>\<open>source\<close> renames the fixed path \<^verbatim>\<open>"{}-{}".format(self.name, self.version)\<close>. With
  an archive whose top-level directory is \<^verbatim>\<open>pybind11-master\<close>, \<^verbatim>\<open>source\<close> raises, the
  directory keeps its name and there is no \<^verbatim>\<open>source_subfolder\<close>.
\<close>

theorem source_other_top_dir_counterexample:
  "fst (source branch_archive_env example_recipe initial_state) \<noteq> None \<and>
   map_of (files (snd (source branch_archive_env example_recipe initial_state)))
     ''pybind11-master'' = Some Dir \<and>
   map_of (files (snd (source branch_archive_env example_recipe initial_state)))
     ''source_subfolder'' = None"
  by (simp add: source_def tools_get_eq rename_call_eq branch_archive_env_def example_recipe_def
      PyBind11Conan_def initial_state_def unpack_def example_archive_def os_rename_def
      source_subfolder_def)

text \<open>
  C1, amended: for every version string \<open>V\<close>, \<^verbatim>\<open>source\<close> first fetches
  \<^verbatim>\<open>https://github.com/pybind/pybind11/archive/refs/tags/v<V>.tar.gz\<close> and, when the
  fetch succeeds, then renames the path \<^verbatim>\<open><name>-<V>\<close> to \<^verbatim>\<open>source_subfolder\<close>, and
  calls nothing else. When the top-level directory of the archive is named
  \<^verbatim>\<open>pybind11-<V>\<close> and the working directory holds no \<^verbatim>\<open>source_subfolder\<close>, \<^verbatim>\<open>source\<close>
  succeeds: \<^verbatim>\<open>source_subfolder\<close> is a directory, \<^verbatim>\<open>pybind11-<V>\<close> is gone, and every
  member of the archive is found under \<^verbatim>\<open>source_subfolder\<close>.
\<close>

theorem source_fetch_and_rename:
  "new_events s (snd (source env self s)) =
     ToolsGet (''https://github.com/pybind/pybind11/archive/refs/tags/v'' @ version self @ ''.tar.gz'') #
     (case download env
             (''https://github.com/pybind/pybind11/archive/refs/tags/v'' @ version self @ ''.tar.gz'') of
        Inl e \<Rightarrow> []
      | Inr a \<Rightarrow> [OsRename (name self @ ''-'' @ version self) ''source_subfolder'']) \<and>
   (name self = ''pybind11'' \<and>
    download env
      (''https://github.com/pybind/pybind11/archive/refs/tags/v'' @ version self @ ''.tar.gz'') =
      Inr ar \<and>
    top_dir ar = ''pybind11-'' @ version self \<and>
    map_of (files s) ''source_subfolder'' = None \<and>
    \<not> has_children ''source_subfolder'' (files s) \<longrightarrow>
      fst (source env self s) = None \<and>
      map_of (files (snd (source env self s))) ''source_subfolder'' = Some Dir \<and>
      map_of (files (snd (source env self s))) (''pybind11-'' @ version self) = None \<and>
      (\<forall>p n. map_of (members ar) p = Some n \<longrightarrow>
         map_of (files (snd (source env self s))) (''source_subfolder/'' @ p) = Some n))"
proof -
  have renamed:
    "fst (source env self s) = None \<and>
     map_of (files (snd (source env self s))) ''source_subfolder'' = Some Dir \<and>
     map_of (files (snd (source env self s))) (''pybind11-'' @ version self) = None \<and>
     (\<forall>p n. map_of (members ar) p = Some n \<longrightarrow>
        map_of (files (snd (source env self s))) (''source_subfolder/'' @ p) = Some n)"
    if nm: "name self = ''pybind11''"
      and dl: "download env
          (''https://github.com/pybind/pybind11/archive/refs/tags/v'' @ version self @ ''.tar.gz'') =
          Inr ar"
      and top: "top_dir ar = ''pybind11-'' @ version self"
      and free: "map_of (files s) ''source_subfolder'' = None"
      and empty: "\<not> has_children ''source_subfolder'' (files s)"
  proof -
    let ?nv = "''pybind11-'' @ version self"
    let ?fs = "unpack ar (files s)"
    note sr = source_renames [OF nm dl top free empty]
    have a: "map_of (move ?nv ''source_subfolder'' ?fs) ''source_subfolder'' = Some Dir"
      using map_of_unpack_top [of ar "files s"] top by (simp add: map_of_move_dst)
    have b: "map_of (move ?nv ''source_subfolder'' ?fs) ?nv = None"
      by (rule map_of_move_src) simp
    have c: "map_of (move ?nv ''source_subfolder'' ?fs) (''source_subfolder/'' @ p) = Some n"
      if "map_of (members ar) p = Some n" for p n
    proof -
      have "map_of (move ?nv ''source_subfolder'' ?fs) (''source_subfolder'' @ ''/'' @ p) =
          map_of ?fs (?nv @ ''/'' @ p)"
        using sr(3) sr(2) by (rule map_of_move_under)
      also have "\<dots> = Some n"
        using map_of_unpack_member [OF that, of "files s"] top by simp
      finally show ?thesis by simp
    qed
    from a b c show ?thesis by (simp add: sr(1))
  qed
  with source_events [of s env self] show ?thesis by blast
qed

theorem source_fetch_and_rename_witness:
  "new_events initial_state (snd (source example_env example_recipe initial_state)) =
     [ToolsGet ''https://github.com/pybind/pybind11/archive/refs/tags/v2.10.1.tar.gz'',
      OsRename ''pybind11-2.10.1'' ''source_subfolder''] \<and>
   fst (source example_env example_recipe initial_state) = None \<and>
   map_of (files (snd (source example_env example_recipe initial_state))) ''source_subfolder'' =
     Some Dir \<and>
   map_of (files (snd (source example_env example_recipe initial_state))) ''pybind11-2.10.1'' =
     None \<and>
   map_of (files (snd (source example_env example_recipe initial_state)))
     ''source_subfolder/LICENSE'' = Some (File ''BSD'')"
proof -
  have v: "version example_recipe = ''2.10.1''" "name example_recipe = ''pybind11''"
    by (simp_all add: example_recipe_def PyBind11Conan_def)
  have dl: "download example_env
      ''https://github.com/pybind/pybind11/archive/refs/tags/v2.10.1.tar.gz'' = Inr example_archive"
    by (simp add: example_env_def)
  have top: "top_dir example_archive = ''pybind11-2.10.1''"
    and mem: "map_of (members example_archive) ''LICENSE'' = Some (File ''BSD'')"
    by (simp_all add: example_archive_def)
  have free: "map_of (files initial_state) ''source_subfolder'' = None"
    and empty: "\<not> has_children ''source_subfolder'' (files initial_state)"
    by (simp_all add: initial_state_simps has_children_def)
  from source_fetch_and_rename [where s = initial_state and env = example_env
      and self = example_recipe and ar = example_archive]
  show ?thesis
    using v dl top mem free empty by simp
qed

subsection \<open>C9: the rename needs the directory name of the release\<close>

text \<open>
  C9: for the recipe as written (name \<^verbatim>\<open>pybind11\<close>, version \<^verbatim>\<open>2.10.1\<close>), when the fetched
  archive has a top-level directory with a name other than \<^verbatim>\<open>pybind11-2.10.1\<close>, the
  rename raises \<^verbatim>\<open>FileNotFoundError\<close> and \<^verbatim>\<open>source\<close> fails with it, the unpacked files
  staying as they are. The working directory holds no entry \<^verbatim>\<open>pybind11-2.10.1\<close> before
  the fetch, as in the fresh source folder that Conan runs \<^verbatim>\<open>source\<close> in.
\<close>

theorem source_needs_named_top_dir:
  assumes "download env ''https://github.com/pybind/pybind11/archive/refs/tags/v2.10.1.tar.gz'' =
             Inr ar"
    and "top_dir ar \<noteq> ''pybind11-2.10.1''"
    and "map_of (files s) ''pybind11-2.10.1'' = None"
  shows
    "fst (source env (PyBind11Conan st src pkg) s) = Some (FileNotFoundError ''pybind11-2.10.1'') \<and>
     files (snd (source env (PyBind11Conan st src pkg) s)) = unpack ar (files s) \<and>
     new_events s (snd (source env (PyBind11Conan st src pkg) s)) =
       [ToolsGet ''https://github.com/pybind/pybind11/archive/refs/tags/v2.10.1.tar.gz'',
        OsRename ''pybind11-2.10.1'' ''source_subfolder'']"
proof -
  let ?s1 = "s\<lparr>files := unpack ar (files s),
    events := events s @
      [ToolsGet ''https://github.com/pybind/pybind11/archive/refs/tags/v2.10.1.tar.gz'']\<rparr>"
  have "\<not> is_under (top_dir ar) ''pybind11-2.10.1''"
    by (rule no_slash_not_under) simp
  with assms(2,3) have "map_of (files ?s1) ''pybind11-2.10.1'' = None"
    by (simp add: map_of_unpack_other)
  then have "rename_call ''pybind11-2.10.1'' ''source_subfolder'' ?s1 =
      (Some (FileNotFoundError ''pybind11-2.10.1''),
       ?s1\<lparr>events := events ?s1 @ [OsRename ''pybind11-2.10.1'' ''source_subfolder'']\<rparr>)"
    by (rule rename_call_missing)
  with assms(1) show ?thesis
    by (simp add: source_def PyBind11Conan_def tools_get_eq source_subfolder_def)
qed

theorem source_needs_named_top_dir_witness:
  "fst (source branch_archive_env example_recipe initial_state) =
     Some (FileNotFoundError ''pybind11-2.10.1'') \<and>
   new_events initial_state (snd (source branch_archive_env example_recipe initial_state)) =
     [ToolsGet ''https://github.com/pybind/pybind11/archive/refs/tags/v2.10.1.tar.gz'',
      OsRename ''pybind11-2.10.1'' ''source_subfolder'']"
proof -
  have a: "download branch_archive_env
      ''https://github.com/pybind/pybind11/archive/refs/tags/v2.10.1.tar.gz'' =
      Inr (example_archive\<lparr>top_dir := ''pybind11-master''\<rparr>)"
    by (simp add: branch_archive_env_def)
  have b: "top_dir (example_archive\<lparr>top_dir := ''pybind11-master''\<rparr>) \<noteq> ''pybind11-2.10.1''"
    by simp
  have c: "map_of (files initial_state) ''pybind11-2.10.1'' = None"
    by (simp add: initial_state_simps)
  show ?thesis
    using source_needs_named_top_dir [OF a b c, of example_settings "''/src''" "''/pkg''"]
    by (simp add: example_recipe_def)
qed

end
